theory Spec2Isabelle
  imports Complex_Main
begin

section \<open>Errors\<close>

text \<open>
  Every exception the modelled code can raise is a value. The two \<open>ValueError\<close>s that
  \<open>Filter.apply\<close> raises itself are told apart by their messages, so each gets a
  constructor of its own:
  \<^item> \<open>RateMismatchError\<close> is \<open>ValueError('Filter and signal have different sampling rates.')\<close>;
  \<^item> \<open>ShapeMismatchError\<close> is \<open>ValueError('Number of filters must equal number of signal
    channels, or either one of them must be equal to 1.')\<close>;
  \<^item> \<open>NumpyValueError\<close> is any other \<open>ValueError\<close>: one raised inside a numpy or
    scipy routine, or by \<open>int\<close> on a float that is not a number;
  \<^item> \<open>ImportError\<close> is \<open>ImportError('FIR filters require scipy.')\<close>;
  \<^item> the others are Python's built-in exceptions of the same names.
\<close>

datatype error =
    ImportError
  | RateMismatchError
  | ShapeMismatchError
  | NumpyValueError
  | TypeError
  | ZeroDivisionError
  | IndexError
  | UnboundLocalError
  | NameError
  | OverflowError

definition bindE :: "error + 'a \<Rightarrow> ('a \<Rightarrow> error + 'b) \<Rightarrow> error + 'b" where
  "bindE m f = (case m of Inl e \<Rightarrow> Inl e | Inr x \<Rightarrow> f x)"

text \<open>A \<open>for\<close> loop whose body may raise: the first exception leaves the loop.\<close>

fun foldE :: "('i \<Rightarrow> 's \<Rightarrow> error + 's) \<Rightarrow> 'i list \<Rightarrow> 's \<Rightarrow> error + 's" where
  "foldE f [] s = Inr s"
| "foldE f (i # is) s = (case f i s of Inl e \<Rightarrow> Inl e | Inr s' \<Rightarrow> foldE f is s')"

section \<open>Arrays\<close>

text \<open>
  A two-dimensional numpy array of floats is its list of rows together with the number of
  columns (\<open>shape[1]\<close>, which the rows alone cannot give when there are none);
  \<open>shape[0]\<close> is the number of rows. Floats are modelled as real numbers: what is
  proved below is about shapes, branches and the algebra of the values, not about rounding.
\<close>

record array2 =
  ncols :: nat
  rows :: "real list list"

definition nrows :: "array2 \<Rightarrow> nat" where
  "nrows a = length (rows a)"

definition wf_array :: "array2 \<Rightarrow> bool" where
  "wf_array a = list_all (\<lambda>r. length r = ncols a) (rows a)"

text \<open>\<open>a[:, j]\<close>, for a column index in range.\<close>

definition col :: "array2 \<Rightarrow> nat \<Rightarrow> real list" where
  "col a j = map (\<lambda>r. r ! j) (rows a)"

text \<open>\<open>a.T\<close>\<close>

definition array_T :: "array2 \<Rightarrow> array2" where
  "array_T a = \<lparr>ncols = nrows a, rows = map (col a) [0..<ncols a]\<rparr>"

text \<open>The arrays a constructor is given here: one- or two-dimensional.\<close>

datatype ndarray = Array1 "real list" | Array2 array2

section \<open>Signal and Filter\<close>

text \<open>
  \<open>signals.py\<close>: a Signal holds \<open>data\<close> and \<open>samplerate\<close>; \<open>filter.py\<close>: a Filter is
  a Signal with the flag \<open>fir\<close>. \<open>nsamples\<close> is \<open>data.shape[0]\<close> and \<open>nchannels\<close> is
  \<open>data.shape[1]\<close>; \<open>nfilters\<close>, \<open>ntaps\<close> and \<open>nfrequencies\<close> are the Filter's names
  for them.
\<close>

record signal =
  data :: array2
  samplerate :: real

record filter = signal +
  fir :: bool

definition nsamples :: "'a signal_scheme \<Rightarrow> nat" where
  "nsamples s = nrows (data s)"

definition nchannels :: "'a signal_scheme \<Rightarrow> nat" where
  "nchannels s = ncols (data s)"

definition nfilters :: "filter \<Rightarrow> nat" where
  "nfilters f = nchannels f"

definition ntaps :: "filter \<Rightarrow> nat" where
  "ntaps f = nsamples f"

definition nfrequencies :: "filter \<Rightarrow> nat" where
  "nfrequencies f = nsamples f"

text \<open>
  \<open>Signal.get_samplerate\<close>. The module's global \<open>_default_samplerate\<close> (8000 until
  \<open>set_default_samplerate\<close> changes it) is the explicit argument \<open>dsr\<close>.
\<close>

definition get_samplerate :: "real \<Rightarrow> real option \<Rightarrow> real" where
  "get_samplerate dsr sr = (case sr of None \<Rightarrow> dsr | Some r \<Rightarrow> r)"

text \<open>
  \<open>Signal.__init__\<close> on an array: a one-dimensional array of \<open>n\<close> values becomes the
  column \<open>(n, 1)\<close>; a two-dimensional array with more columns than rows is replaced by its
  transpose. (A list or tuple of channels, and data of any other class, are outside this
  input type.)
\<close>

definition Signal_data :: "ndarray \<Rightarrow> array2" where
  "Signal_data d =
     (case d of
        Array1 xs \<Rightarrow> \<lparr>ncols = 1, rows = map (\<lambda>x. [x]) xs\<rparr>
      | Array2 a \<Rightarrow> if ncols a > nrows a then array_T a else a)"

definition Signal_init :: "real \<Rightarrow> ndarray \<Rightarrow> real option \<Rightarrow> signal" where
  "Signal_init dsr d sr = \<lparr>data = Signal_data d, samplerate = get_samplerate dsr sr\<rparr>"

text \<open>
  \<open>Filter.__init__\<close>. \<open>have_scipy\<close> is the module's flag of the same name: whether
  \<open>import scipy.signal\<close> succeeded.
\<close>

definition Filter_init :: "bool \<Rightarrow> real \<Rightarrow> ndarray \<Rightarrow> real option \<Rightarrow> bool \<Rightarrow> error + filter" where
  "Filter_init have_scipy dsr d sr fir_flag =
     (if fir_flag \<and> \<not> have_scipy then Inl ImportError
      else Inr \<lparr>data = Signal_data d, samplerate = get_samplerate dsr sr, fir = fir_flag\<rparr>)"

section \<open>Persistence\<close>

text \<open>
  \<open>Filter.save\<close> builds the array that \<open>numpy.save\<close> writes: the samplerate tiled over
  the filters, the flag \<open>fir\<close> tiled over the filters (\<open>True\<close> is stored as 1.0), then the
  data. \<open>numpy.save\<close> followed by \<open>numpy.load\<close> gives the array back, so the file is
  the array itself.
\<close>

definition save :: "filter \<Rightarrow> array2" where
  "save self =
     (let fs = replicate (nfilters self) (samplerate self);
          fir_row = replicate (nfilters self) (if fir self then 1 else 0)
      in \<lparr>ncols = nfilters self, rows = fs # fir_row # rows (data self)\<rparr>)"

text \<open>
  \<open>Filter.load\<close>: \<open>data[0][0]\<close> and \<open>data[1][0]\<close> raise \<open>IndexError\<close> when the row or
  the column is missing; \<open>data[2:, :]\<close> drops the two header rows; the constructor is
  called on what is left.
\<close>

definition load :: "bool \<Rightarrow> real \<Rightarrow> array2 \<Rightarrow> error + filter" where
  "load have_scipy dsr d =
     (if nrows d < 1 \<or> ncols d < 1 then Inl IndexError
      else if nrows d < 2 then Inl IndexError
      else let sr = rows d ! 0 ! 0;
               fir_flag = (rows d ! 1 ! 0 \<noteq> 0)
           in Filter_init have_scipy dsr (Array2 (d\<lparr>rows := drop 2 (rows d)\<rparr>)) (Some sr) fir_flag)"

section \<open>The numpy and scipy routines that \<open>apply\<close> calls\<close>

text \<open>
  These routines are not code of the repository; each is modelled from its documented
  contract, with the argument checks that decide whether the call returns or raises.
\<close>

text \<open>
  An assignment \<open>a[:, j] = v\<close> of a one-dimensional \<open>v\<close>: \<open>v\<close> must have one value
  per row, or a single value that is broadcast; any other length raises \<open>ValueError\<close>
  (could not broadcast input array).
\<close>

definition set_col :: "array2 \<Rightarrow> nat \<Rightarrow> real list \<Rightarrow> error + array2" where
  "set_col a j v =
     (if ncols a \<le> j then Inl IndexError
      else if length v = nrows a then Inr (a\<lparr>rows := map2 (\<lambda>r x. r[j := x]) (rows a) v\<rparr>)
      else if length v = 1 then Inr (a\<lparr>rows := map (\<lambda>r. r[j := hd v]) (rows a)\<rparr>)
      else Inl NumpyValueError)"

text \<open>\<open>numpy.empty((n, c))\<close>: its values are arbitrary until written; zeros stand for them.\<close>

definition empty_array :: "nat \<Rightarrow> nat \<Rightarrow> array2" where
  "empty_array n c = \<lparr>ncols = c, rows = replicate n (replicate c 0)\<rparr>"

text \<open>\<open>a.flatten()\<close>: the values in row-major order.\<close>

definition flatten :: "array2 \<Rightarrow> real list" where
  "flatten a = concat (rows a)"

text \<open>The array whose columns are \<open>cs\<close>, each of \<open>n\<close> values.\<close>

definition of_cols :: "nat \<Rightarrow> real list list \<Rightarrow> array2" where
  "of_cols n cs = \<lparr>ncols = length cs, rows = map (\<lambda>i. map (\<lambda>c. c ! i) cs) [0..<n]\<rparr>"

text \<open>
  \<open>scipy.signal.lfilter(b, [1], x, axis=0)\<close>. With the denominator \<open>[1]\<close> the output is
  the causal convolution cut to the input's length,
  \<open>y[n] = b[0] x[n] + b[1] x[n-1] + ...\<close>, along each column of \<open>x\<close>. The numerator
  \<open>b\<close> must be one-dimensional: a two-dimensional \<open>b\<close> raises \<open>ValueError\<close> (object too
  deep for desired array), as does an empty \<open>b\<close> or an \<open>x\<close> with no row or no column.
  The name \<open>scipy\<close> is unbound when the import failed.
\<close>

definition fir_filter :: "real list \<Rightarrow> real list \<Rightarrow> real list" where
  "fir_filter b x =
     map (\<lambda>n. \<Sum>k\<leftarrow>[0..<min (length b) (Suc n)]. b ! k * x ! (n - k)) [0..<length x]"

definition lfilter :: "bool \<Rightarrow> ndarray \<Rightarrow> array2 \<Rightarrow> error + array2" where
  "lfilter have_scipy b x =
     (if \<not> have_scipy then Inl NameError
      else case b of
        Array2 _ \<Rightarrow> Inl NumpyValueError
      | Array1 bs \<Rightarrow>
          if bs = [] \<or> nrows x = 0 \<or> ncols x = 0 then Inl NumpyValueError
          else Inr (of_cols (nrows x) (map (\<lambda>j. fir_filter bs (col x j)) [0..<ncols x])))"

text \<open>
  \<open>numpy.fft.rfft(a, axis=0)\<close>: the first \<open>n div 2 + 1\<close> bins of the discrete Fourier
  transform of each column of \<open>n\<close> samples; \<open>ValueError\<close> (invalid number of FFT data
  points) when \<open>n = 0\<close>. The result is given by its columns.
\<close>

definition rfft :: "real list \<Rightarrow> complex list" where
  "rfft x =
     (let n = length x
      in map (\<lambda>k. \<Sum>t\<leftarrow>[0..<n]. complex_of_real (x ! t) * cis (- (2 * pi * real k * real t / real n)))
           [0..<n div 2 + 1])"

definition rfft_axis0 :: "array2 \<Rightarrow> error + complex list list" where
  "rfft_axis0 a =
     (if nrows a = 0 then Inl NumpyValueError
      else Inr (map (\<lambda>j. rfft (col a j)) [0..<ncols a]))"

text \<open>
  \<open>numpy.fft.irfft(X)\<close> with no length given: for \<open>m\<close> input bins the output has
  \<open>2 * (m - 1)\<close> samples; \<open>ValueError\<close> (invalid number of data points) when that is 0.
\<close>

definition irfft :: "complex list \<Rightarrow> error + real list" where
  "irfft X =
     (let m = length X; n = 2 * (m - 1)
      in if n = 0 then Inl NumpyValueError
         else Inr (map (\<lambda>t. (Re (X ! 0) + (- 1) ^ t * Re (X ! (m - 1))
                            + 2 * (\<Sum>k\<leftarrow>[1..<m - 1]. Re (X ! k * cis (2 * pi * real k * real t / real n))))
                           / real n)
                     [0..<n]))"

text \<open>Python's \<open>a / b\<close> on numbers.\<close>

definition py_div :: "real \<Rightarrow> real \<Rightarrow> error + real" where
  "py_div a b = (if b = 0 then Inl ZeroDivisionError else Inr (a / b))"

text \<open>
  \<open>numpy.fft.rfftfreq(n, d)\<close>: \<open>val = 1.0 / (n * d)\<close>, then the bins
  \<open>0, 1, ..., n div 2\<close> times \<open>val\<close> (\<open>div\<close> rounds down, also for a negative \<open>n\<close>).
\<close>

definition rfftfreq :: "int \<Rightarrow> real \<Rightarrow> error + real list" where
  "rfftfreq n d =
     bindE (py_div 1 (real_of_int n * d))
       (\<lambda>val. Inr (map (\<lambda>i. real i * val) [0..<nat (n div 2 + 1)]))"

text \<open>
  \<open>numpy.interp(x, xp, fp)\<close>: piecewise-linear interpolation through the points
  \<open>(xp[i], fp[i])\<close> (\<open>xp\<close> increasing), constant outside them. \<open>fp\<close> must be
  one-dimensional: a two-dimensional \<open>fp\<close> raises \<open>ValueError\<close> (object too deep for
  desired array); so do an empty \<open>xp\<close> and an \<open>fp\<close> of another length than \<open>xp\<close>.
\<close>

fun interp1 :: "(real \<times> real) list \<Rightarrow> real \<Rightarrow> real" where
  "interp1 [] x = 0"
| "interp1 [(x0, y0)] x = y0"
| "interp1 ((x0, y0) # (x1, y1) # ps) x =
     (if x \<le> x0 then y0
      else if x < x1 then y0 + (y1 - y0) / (x1 - x0) * (x - x0)
      else interp1 ((x1, y1) # ps) x)"

definition interp :: "real list \<Rightarrow> real list \<Rightarrow> ndarray \<Rightarrow> error + real list" where
  "interp x xp fp =
     (case fp of
        Array2 _ \<Rightarrow> Inl NumpyValueError
      | Array1 ys \<Rightarrow>
          if xp = [] then Inl NumpyValueError
          else if length ys \<noteq> length xp then Inl NumpyValueError
          else Inr (map (interp1 (zip xp ys)) x))"

text \<open>
  The elementwise product \<open>X * w\<close> of a complex and a real one-dimensional array: equal
  lengths, or one of them a single value that is broadcast; \<open>ValueError\<close> otherwise.
\<close>

definition mul_arrays :: "complex list \<Rightarrow> real list \<Rightarrow> error + complex list" where
  "mul_arrays X w =
     (if length X = length w then Inr (map2 (\<lambda>z r. z * complex_of_real r) X w)
      else if length w = 1 then Inr (map (\<lambda>z. z * complex_of_real (hd w)) X)
      else if length X = 1 then Inr (map (\<lambda>r. hd X * complex_of_real r) w)
      else Inl NumpyValueError)"

section \<open>Applying a filter\<close>

text \<open>
  The property \<open>frequencies\<close>: \<open>rfftfreq(ntaps * 2 - 1, d = 1 / samplerate)\<close> for a
  frequency-domain filter, \<open>None\<close> for an FIR filter.
\<close>

definition frequencies :: "filter \<Rightarrow> error + real list option" where
  "frequencies self =
     (if \<not> fir self
      then bindE (py_div 1 (samplerate self))
             (\<lambda>d. bindE (rfftfreq (int (ntaps self) * 2 - 1) d) (\<lambda>bins. Inr (Some bins)))
      else Inr None)"

text \<open>
  The assignment \<open>out.data[:, j] = numpy.fft.irfft(X * w)\<close> of the frequency-domain
  loops: the channel's spectrum \<open>X\<close> times the interpolated filter \<open>w\<close>, transformed
  back and stored as column \<open>j\<close> of \<open>out\<close>.
\<close>

definition store_irfft :: "complex list \<Rightarrow> real list \<Rightarrow> nat \<Rightarrow> array2 \<Rightarrow> error + array2" where
  "store_irfft X w j out = bindE (mul_arrays X w) (\<lambda>P. bindE (irfft P) (\<lambda>y. set_col out j y))"

text \<open>
  \<open>Filter.apply\<close>. \<open>sig\<close> is any Signal (a Filter too: \<open>filt.apply(filt)\<close> is the module's
  own example); the result is the deep copy \<open>out\<close> with its data replaced. \<open>self.data\<close> is
  the two-dimensional array, \<open>self[:, j]\<close> the one-dimensional column \<open>j\<close>.
\<close>

definition Filter_apply :: "bool \<Rightarrow> filter \<Rightarrow> 'a signal_scheme \<Rightarrow> error + 'a signal_scheme" where
  "Filter_apply have_scipy self sig =
     (if samplerate self \<noteq> samplerate sig \<and> samplerate self \<noteq> 1 then Inl RateMismatchError
      else if fir self then
        (if nfilters self = nchannels sig then
           bindE (lfilter have_scipy (Array2 (data self)) (data sig)) (\<lambda>d. Inr (sig\<lparr>data := d\<rparr>))
         else if nfilters self = 1 \<and> nchannels sig > 1 then
           bindE (lfilter have_scipy (Array2 (data self)) (data sig)) (\<lambda>d. Inr (sig\<lparr>data := d\<rparr>))
         else if nfilters self > 1 \<and> nchannels sig = 1 then
           bindE (foldE (\<lambda>filt out.
                     bindE (lfilter have_scipy (Array1 (col (data self) filt)) (data sig))
                       (\<lambda>y. set_col out filt (flatten y)))
                   [0..<nfilters self] (empty_array (nsamples sig) (nfilters self)))
             (\<lambda>d. Inr (sig\<lparr>data := d\<rparr>))
         else Inl ShapeMismatchError)
      else
        bindE (rfft_axis0 (data sig)) (\<lambda>sig_rfft.
        bindE (py_div 1 (samplerate sig)) (\<lambda>d.
        bindE (rfftfreq (int (nsamples sig)) d) (\<lambda>sig_freq_bins.
        bindE (frequencies self) (\<lambda>filt_freq_bins.
          case filt_freq_bins of
            None \<Rightarrow> Inl TypeError
          | Some bins \<Rightarrow>
              if nfilters self = nchannels sig then
                bindE (foldE (\<lambda>chan out.
                          bindE (interp sig_freq_bins bins (Array1 (col (data self) chan)))
                            (\<lambda>w. store_irfft (sig_rfft ! chan) w chan out))
                        [0..<nchannels sig] (data sig))
                  (\<lambda>d. Inr (sig\<lparr>data := d\<rparr>))
              else if nfilters self = 1 \<and> nchannels sig > 1 then
                bindE (interp sig_freq_bins bins (Array2 (data self))) (\<lambda>w.
                bindE (foldE (\<lambda>chan out. store_irfft (sig_rfft ! chan) w chan out)
                        [0..<nchannels sig] (data sig))
                  (\<lambda>d. Inr (sig\<lparr>data := d\<rparr>)))
              else if nfilters self > 1 \<and> nchannels sig = 1 then
                bindE (foldE (\<lambda>filt out.
                          bindE (interp sig_freq_bins bins (Array1 (col (data self) filt)))
                            (\<lambda>w. store_irfft (concat sig_rfft) w filt out))
                        [0..<nfilters self] (empty_array (nsamples sig) (nfilters self)))
                  (\<lambda>d. Inr (sig\<lparr>data := d\<rparr>))
              else Inl ShapeMismatchError)))))"

text \<open>
  What one pass of the pairwise and fan-out loops assigns to its output column: the filter
  column \<open>h\<close> interpolated onto the signal's bins, times the channel's spectrum \<open>X\<close>,
  transformed back.
\<close>

definition filter_spectrum :: "real list \<Rightarrow> real list \<Rightarrow> real list \<Rightarrow> complex list \<Rightarrow> error + real list" where
  "filter_spectrum sig_bins filt_bins h X =
     bindE (interp sig_bins filt_bins (Array1 h)) (\<lambda>w. bindE (mul_arrays X w) irfft)"

text \<open>\<open>Signal.channel\<close>: channel \<open>n\<close> as a one-channel object of the same class.\<close>

definition channel :: "'a signal_scheme \<Rightarrow> nat \<Rightarrow> error + 'a signal_scheme" where
  "channel self n =
     (if nchannels self \<le> n then Inl IndexError
      else Inr (self\<lparr>data := \<lparr>ncols = 1, rows = map (\<lambda>x. [x]) (col (data self) n)\<rparr>\<rparr>))"

section \<open>Rectangular filters\<close>

text \<open>
  Python's \<open>round\<close> of a float, and \<open>numpy.round\<close>: the nearest integer, a tie going
  to the even one.
\<close>

definition py_round :: "real \<Rightarrow> int" where
  "py_round x =
     (let f = \<lfloor>x\<rfloor>; d = x - of_int f
      in if d < 1 / 2 then f else if 1 / 2 < d then f + 1 else if even f then f else f + 1)"

text \<open>
  A slice bound on a sequence of \<open>n\<close> items: a negative bound counts from the end, and
  every bound is clipped to \<open>0..n\<close>. \<open>xs[start:stop] = v\<close> writes \<open>v\<close> at the indices
  from \<open>start\<close> up to, not including, \<open>stop\<close>; a missing bound is the end of the sequence
  on its side.
\<close>

definition slice_bound :: "nat \<Rightarrow> int \<Rightarrow> nat" where
  "slice_bound n i = (if i < 0 then nat (max 0 (int n + i)) else min (nat i) n)"

definition set_slice :: "real list \<Rightarrow> int option \<Rightarrow> int option \<Rightarrow> real \<Rightarrow> real list" where
  "set_slice xs start stop v =
     (let n = length xs;
          a = (case start of None \<Rightarrow> 0 | Some i \<Rightarrow> slice_bound n i);
          b = (case stop of None \<Rightarrow> n | Some i \<Rightarrow> slice_bound n i)
      in map (\<lambda>k. if a \<le> k \<and> k < b then v else xs ! k) [0..<n])"

text \<open>The argument \<open>frequency\<close>: a number, or a tuple of two numbers.\<close>

datatype frequency = Scalar real | Pair real real

text \<open>
  \<open>round(frequency/df)\<close> needs a number (a tuple cannot be divided: \<open>TypeError\<close>);
  \<open>round(frequency[0]/df)\<close> and \<open>round(frequency[1]/df)\<close> need a tuple (a number
  cannot be indexed: \<open>TypeError\<close>).
\<close>

definition scalar_bin :: "frequency \<Rightarrow> real \<Rightarrow> error + int" where
  "scalar_bin frequency df =
     (case frequency of Scalar f \<Rightarrow> Inr (py_round (f / df)) | Pair _ _ \<Rightarrow> Inl TypeError)"

definition pair_bins :: "frequency \<Rightarrow> real \<Rightarrow> error + int \<times> int" where
  "pair_bins frequency df =
     (case frequency of
        Pair f0 f1 \<Rightarrow> Inr (py_round (f0 / df), py_round (f1 / df))
      | Scalar _ \<Rightarrow> Inl TypeError)"

text \<open>
  \<open>scipy.signal.firwin(numtaps, cutoff, ...)\<close> is not code of the repository. Of its
  contract the model has the signature: the keyword arguments it accepts are \<open>width\<close>,
  \<open>window\<close>, \<open>pass_zero\<close>, \<open>scale\<close>, \<open>nyq\<close> and \<open>fs\<close>, and a call with any
  other keyword raises \<open>TypeError\<close> (unexpected keyword argument) before anything is
  computed. The design itself (the windowed-sinc method) is the parameter \<open>design\<close>.
\<close>

datatype kwvalue = KwBool bool | KwReal real | KwArray "real list"

type_synonym fir_design = "nat \<Rightarrow> frequency \<Rightarrow> (string \<times> kwvalue) list \<Rightarrow> error + real list"

definition firwin_keywords :: "string list" where
  "firwin_keywords = [''width'', ''window'', ''pass_zero'', ''scale'', ''nyq'', ''fs'']"

definition firwin :: "fir_design \<Rightarrow> nat \<Rightarrow> frequency \<Rightarrow> (string \<times> kwvalue) list \<Rightarrow> error + real list" where
  "firwin design numtaps cutoff kwargs =
     (if list_all (\<lambda>kw. fst kw \<in> set firwin_keywords) kwargs then design numtaps cutoff kwargs
      else Inl TypeError)"

text \<open>
  The local \<open>pass_zero\<close> of the FIR branch: bound by the \<open>if\<close>/\<open>elif\<close> for the four
  kinds it names, unbound for any other kind.
\<close>

definition pass_zero_of :: "string \<Rightarrow> bool option" where
  "pass_zero_of kind =
     (if kind \<in> set [''lp'', ''bs''] then Some True
      else if kind \<in> set [''hp'', ''bp''] then Some False
      else None)"

text \<open>
  \<open>Filter.rectangular_filter\<close>. In the FIR branch the name \<open>scipy\<close> is looked up first,
  then the arguments are evaluated (an unbound \<open>pass_zero\<close> raises
  \<open>UnboundLocalError\<close>), then \<open>firwin\<close> is called with the keywords \<open>pass_zero\<close> and
  \<open>samplerate\<close>. In the other branch the four \<open>if\<close>s run one after the other on the
  array of zeros.
\<close>

definition rectangular_filter ::
  "bool \<Rightarrow> real \<Rightarrow> fir_design \<Rightarrow> frequency \<Rightarrow> string \<Rightarrow> real option \<Rightarrow> nat \<Rightarrow> bool \<Rightarrow> error + filter" where
  "rectangular_filter have_scipy dsr design frequency kind samplerate_arg length_arg fir_flag =
     (let sr = get_samplerate dsr samplerate_arg
      in if fir_flag then
           (if \<not> have_scipy then Inl NameError
            else case pass_zero_of kind of
              None \<Rightarrow> Inl UnboundLocalError
            | Some pass_zero \<Rightarrow>
                bindE (firwin design length_arg frequency
                         [(''pass_zero'', KwBool pass_zero), (''samplerate'', KwReal sr)])
                  (\<lambda>filt. Filter_init have_scipy dsr (Array1 filt) (Some sr) fir_flag))
         else
           bindE (py_div 1 (sr / 2)) (\<lambda>st.
           bindE (py_div 1 (st * real length_arg)) (\<lambda>df.
           bindE (if kind = ''lp''
                  then bindE (scalar_bin frequency df)
                         (\<lambda>b. Inr (set_slice (replicate length_arg 0) None (Some b) 1))
                  else Inr (replicate length_arg 0)) (\<lambda>filt1.
           bindE (if kind = ''hp''
                  then bindE (scalar_bin frequency df) (\<lambda>b. Inr (set_slice filt1 (Some b) None 1))
                  else Inr filt1) (\<lambda>filt2.
           bindE (if kind = ''bp''
                  then bindE (pair_bins frequency df)
                         (\<lambda>(b0, b1). Inr (set_slice filt2 (Some b0) (Some b1) 1))
                  else Inr filt2) (\<lambda>filt3.
           bindE (if kind = ''notch''
                  then bindE (pair_bins frequency df)
                         (\<lambda>(b0, b1). Inr (set_slice (set_slice filt3 None (Some b0) 1) (Some b1) None 1))
                  else Inr filt3) (\<lambda>filt.
           Filter_init have_scipy dsr (Array1 filt) (Some sr) fir_flag)))))))"

section \<open>The ERB cosine filterbank\<close>

text \<open>\<open>Filter._freq2erb\<close> and \<open>Filter._erb2freq\<close>.\<close>

definition freq2erb :: "real \<Rightarrow> real" where
  "freq2erb freq_hz = 9.265 * ln (1 + freq_hz / (24.7 * 9.265))"

definition erb2freq :: "real \<Rightarrow> real" where
  "erb2freq n_erb = 24.7 * 9.265 * (exp (n_erb / 9.265) - 1)"

text \<open>
  \<open>numpy.log\<close> of a negative number is not a number, and of 0 it is minus infinity
  (a warning, no exception); \<open>ln\<close> stands for \<open>numpy.log\<close> only where the argument
  is positive.
\<close>

definition erb_defined :: "real \<Rightarrow> bool" where
  "erb_defined freq_hz = (0 < 1 + freq_hz / (24.7 * 9.265))"

text \<open>
  \<open>nfilters = int(numpy.round((h - l) / erb_spacing))\<close>, before the two end points are
  dropped. Where \<open>h\<close> or \<open>l\<close> is not a number, or the quotient of the two numpy floats
  is \<open>0/0\<close>, \<open>int\<close> raises \<open>ValueError\<close>; where the quotient is infinite it raises
  \<open>OverflowError\<close>.
\<close>

definition erb_count :: "real \<Rightarrow> real \<Rightarrow> real \<Rightarrow> error + int" where
  "erb_count bandwidth low_lim hi_lim =
     (let ref_erb = freq2erb 1000;
          erb_spacing = freq2erb (1000 * 2 powr bandwidth) - ref_erb;
          h = freq2erb hi_lim;
          l = freq2erb low_lim;
          a_h = 1 + hi_lim / (24.7 * 9.265);
          a_l = 1 + low_lim / (24.7 * 9.265)
      in if a_h < 0 \<or> a_l < 0 \<or> (a_h = 0 \<and> a_l = 0) then Inl NumpyValueError
         else if a_h = 0 \<or> a_l = 0 then Inl OverflowError
         else if erb_spacing = 0 then (if h - l = 0 then Inl NumpyValueError else Inl OverflowError)
         else Inr (py_round ((h - l) / erb_spacing)))"

text \<open>
  \<open>numpy.linspace(start, stop, num, retstep=True)\<close>: \<open>num\<close> evenly spaced points, the
  last one \<open>stop\<close>, and the step between them; \<open>ValueError\<close> for a negative \<open>num\<close>.
  For fewer than two points the step is not a number; 0 stands for it (the filterbank
  raises before it would use it).
\<close>

definition linspace :: "real \<Rightarrow> real \<Rightarrow> int \<Rightarrow> error + real list \<times> real" where
  "linspace start stop num =
     (if num < 0 then Inl NumpyValueError
      else let n = nat num;
               step = (if 2 \<le> n then (stop - start) / real (n - 1) else 0)
           in Inr (map (\<lambda>i. if 2 \<le> n \<and> i = n - 1 then stop else start + real i * step) [0..<n], step))"

text \<open>
  \<open>Filter.cos_filterbank\<close>. \<open>not hi_lim\<close> holds for \<open>None\<close> and for 0.
  \<open>center_freqs[1:-1]\<close> drops the first and the last point. \<open>numpy.zeros\<close> raises
  \<open>ValueError\<close> for a negative column count. Column \<open>i\<close> of \<open>filts\<close> is the half
  cosine around \<open>center_freqs[i]\<close> where the bin lies strictly inside the band, 0 elsewhere
  (a bin whose ERB value is not a number is inside no band). The third result is \<open>None\<close>
  where \<open>numpy.log2\<close> has no number to return.
\<close>

definition cos_filterbank ::
  "bool \<Rightarrow> real \<Rightarrow> nat \<Rightarrow> real \<Rightarrow> real \<Rightarrow> real option \<Rightarrow> real option
     \<Rightarrow> error + filter \<times> real list \<times> real option" where
  "cos_filterbank have_scipy dsr length_arg bandwidth low_lim hi_lim samplerate_arg =
     (let sr = get_samplerate dsr samplerate_arg;
          hi = (case hi_lim of None \<Rightarrow> sr / 2 | Some h \<Rightarrow> if h = 0 then sr / 2 else h)
      in bindE (py_div 1 sr) (\<lambda>d.
         bindE (rfftfreq (int length_arg) d) (\<lambda>freq_bins.
         bindE (erb_count bandwidth low_lim hi) (\<lambda>count.
         bindE (linspace (freq2erb low_lim) (freq2erb hi) count) (\<lambda>(points, erb_spacing).
           let center_freqs = butlast (tl points);
               nf = count - 2
           in if nf < 0 then Inl NumpyValueError
              else
                let filts = \<lparr>ncols = nat nf,
                             rows = map (\<lambda>f. map (\<lambda>i.
                                       let e = freq2erb f;
                                           avg = center_freqs ! i;
                                           l = avg - erb_spacing;
                                           h = avg + erb_spacing;
                                           rnge = 2 * erb_spacing
                                       in if erb_defined f \<and> l < e \<and> e < h
                                          then cos ((e - avg) / rnge * pi) else 0)
                                     [0..<nat nf]) freq_bins\<rparr>;
                    octaves = erb2freq (freq2erb 1000 + erb_spacing) / 1000;
                    bandwidth' = (if 0 < octaves then Some (log 2 octaves) else None)
                in bindE (Filter_init have_scipy dsr (Array2 filts) (Some sr) False)
                     (\<lambda>fbank. Inr (fbank, map erb2freq center_freqs, bandwidth')))))))"

section \<open>The equalizing filterbank\<close>

text \<open>
  \<open>scipy.signal.firwin2(numtaps, freq, gain, ...)\<close>, as \<open>firwin\<close> above: its keywords
  are \<open>freq\<close>, \<open>gain\<close>, \<open>nfreqs\<close>, \<open>window\<close>, \<open>nyq\<close>, \<open>antisymmetric\<close> and
  \<open>fs\<close>; the design itself is the parameter \<open>design\<close>.
\<close>

type_synonym fir_design2 = "nat \<Rightarrow> (string \<times> kwvalue) list \<Rightarrow> error + real list"

definition firwin2_keywords :: "string list" where
  "firwin2_keywords =
     [''freq'', ''gain'', ''nfreqs'', ''window'', ''nyq'', ''antisymmetric'', ''fs'']"

definition firwin2 :: "bool \<Rightarrow> fir_design2 \<Rightarrow> nat \<Rightarrow> (string \<times> kwvalue) list \<Rightarrow> error + real list" where
  "firwin2 have_scipy design numtaps kwargs =
     (if \<not> have_scipy then Inl NameError
      else if list_all (\<lambda>kw. fst kw \<in> set firwin2_keywords) kwargs then design numtaps kwargs
      else Inl TypeError)"

text \<open>\<open>numpy.tile(v, (c, 1)).T\<close> of a one-dimensional \<open>v\<close>: one row per value, repeated \<open>c\<close> times.\<close>

definition tile_T :: "real list \<Rightarrow> nat \<Rightarrow> array2" where
  "tile_T v c = \<lparr>ncols = c, rows = map (\<lambda>x. replicate c x) v\<rparr>"

text \<open>\<open>numpy.ones((n, c))\<close> and \<open>numpy.zeros((n, c))\<close>.\<close>

definition ones :: "nat \<Rightarrow> nat \<Rightarrow> array2" where
  "ones n c = \<lparr>ncols = c, rows = replicate n (replicate c 1)\<rparr>"

definition zeros :: "nat \<Rightarrow> nat \<Rightarrow> array2" where
  "zeros n c = \<lparr>ncols = c, rows = replicate n (replicate c 0)\<rparr>"

text \<open>
  \<open>numpy.max\<close> raises \<open>ValueError\<close> on an empty array; \<open>numpy.mean\<close> of an empty array
  is not a number (the quotient below stands for it) and raises nothing.
\<close>

definition np_max :: "real list \<Rightarrow> error + real" where
  "np_max xs = (if xs = [] then Inl NumpyValueError else Inr (Max (set xs)))"

definition np_mean :: "real list \<Rightarrow> real" where
  "np_mean xs = sum_list xs / real (length xs)"

text \<open>
  \<open>a - b\<close> on two-dimensional arrays, with numpy's broadcasting: along each axis the
  sizes are equal or one of them is 1 (that operand is repeated); \<open>ValueError\<close> otherwise.
\<close>

definition broadcast_dim :: "nat \<Rightarrow> nat \<Rightarrow> nat option" where
  "broadcast_dim m n = (if m = n then Some m else if m = 1 then Some n else if n = 1 then Some m else None)"

definition sub_arrays :: "array2 \<Rightarrow> array2 \<Rightarrow> error + array2" where
  "sub_arrays a b =
     (case (broadcast_dim (nrows a) (nrows b), broadcast_dim (ncols a) (ncols b)) of
        (Some r, Some c) \<Rightarrow>
          Inr \<lparr>ncols = c,
               rows = map (\<lambda>i. map (\<lambda>j.
                          rows a ! (if nrows a = 1 then 0 else i) ! (if ncols a = 1 then 0 else j)
                          - rows b ! (if nrows b = 1 then 0 else i) ! (if ncols b = 1 then 0 else j))
                        [0..<c]) [0..<r]\<rparr>
      | _ \<Rightarrow> Inl NumpyValueError)"

definition sub_scalar :: "array2 \<Rightarrow> real \<Rightarrow> array2" where
  "sub_scalar a x = a\<lparr>rows := map (map (\<lambda>y. y - x)) (rows a)\<rparr>"

text \<open>The argument \<open>reference\<close>: \<open>'max'\<close>, \<open>'mean'\<close>, or a level given as a number.\<close>

datatype reference = RefMax | RefMean | RefValue real

text \<open>
  \<open>Filter.equalizing_filterbank\<close>. The methods \<open>resample\<close> and \<open>level\<close> belong to the
  class of the two signals, which is not part of \<open>signals.py\<close> or \<open>filter.py\<close>; they
  are the parameters \<open>resample\<close> (a signal at the given rate, or an exception) and
  \<open>level\<close> (one level per channel).
\<close>

definition equalizing_filterbank ::
  "bool \<Rightarrow> real \<Rightarrow> ('a signal_scheme \<Rightarrow> real \<Rightarrow> error + 'a signal_scheme)
     \<Rightarrow> ('a signal_scheme \<Rightarrow> real list) \<Rightarrow> fir_design2
     \<Rightarrow> 'a signal_scheme \<Rightarrow> 'a signal_scheme \<Rightarrow> reference \<Rightarrow> error + filter" where
  "equalizing_filterbank have_scipy dsr resample level design played recorded reference =
     bindE (if samplerate played > samplerate recorded
            then bindE (resample played (samplerate recorded)) (\<lambda>p. Inr (p, recorded))
            else bindE (resample recorded (samplerate played)) (\<lambda>r. Inr (played, r)))
       (\<lambda>(played_signal, recorded_signals).
     bindE (cos_filterbank have_scipy dsr 1000 (1 / 5) 0 None (Some (samplerate played_signal)))
       (\<lambda>(fbank, centre_freqs, bw).
     bindE (Filter_apply have_scipy fbank played_signal) (\<lambda>out_in.
     let levels_in = tile_T (level out_in) (nchannels recorded_signals)
     in
     bindE (foldE (\<lambda>idx levels_out.
               bindE (channel recorded_signals idx) (\<lambda>ch.
               bindE (Filter_apply have_scipy fbank ch) (\<lambda>out.
               set_col levels_out idx (level out))))
             [0..<nchannels recorded_signals]
             (ones (length centre_freqs) (nchannels recorded_signals))) (\<lambda>levels_out.
     bindE (case reference of
              RefMax \<Rightarrow> np_max (flatten levels_out)
            | RefMean \<Rightarrow> Inr (np_mean (flatten levels_out))
            | RefValue v \<Rightarrow> Inr v) (\<lambda>ref.
     bindE (sub_arrays levels_in levels_out) (\<lambda>diffs.
     let amp_diffs = sub_scalar diffs ref;
         freqs = [0] @ centre_freqs @ [samplerate played_signal / 2]
     in
     bindE (foldE (\<lambda>idx filt.
               bindE (firwin2 have_scipy design 1000
                        [(''freq'', KwArray freqs),
                         (''gain'', KwArray ([0] @ col amp_diffs idx @ [0])),
                         (''fs'', KwReal (samplerate played_signal))])
                 (\<lambda>taps. set_col filt idx taps))
             [0..<nchannels recorded_signals]
             (zeros 1000 (nchannels recorded_signals))) (\<lambda>filt.
     Filter_init have_scipy dsr (Array2 filt) (Some (samplerate played_signal)) True)))))))"

section \<open>Shapes after construction\<close>

lemma bindE_Inl: "bindE (Inl e) f = Inl e"
  by (simp add: bindE_def)

lemma bindE_Inr: "bindE (Inr x) f = f x"
  by (simp add: bindE_def)

lemma nrows_array_T: "nrows (array_T a) = ncols a"
  by (simp add: array_T_def nrows_def)

lemma ncols_array_T: "ncols (array_T a) = nrows a"
  by (simp add: array_T_def)

lemma Signal_data_Array2_shape: "ncols (Signal_data (Array2 a)) \<le> nrows (Signal_data (Array2 a))"
  by (simp add: Signal_data_def nrows_array_T ncols_array_T)

lemma Signal_data_Array2_wide:
  "nrows a < ncols a \<Longrightarrow> Signal_data (Array2 a) = array_T a"
  by (simp add: Signal_data_def)

lemma Signal_data_Array2_tall:
  "ncols a \<le> nrows a \<Longrightarrow> Signal_data (Array2 a) = a"
  by (simp add: Signal_data_def)

lemma upt_1: "[0..<1] = [0]"
  by (simp add: upt_rec)

lemma upt_2: "[0..<2] = [0, 1]"
  by (simp add: upt_rec)

lemma upt_3: "[0..<3] = [0, 1, 2]"
  by (simp add: upt_rec)

text \<open>
  C10. A Signal or Filter built from a two-dimensional array with more columns than rows
  stores the transpose, and a Filter rebuilt by \<open>load\<close> goes through the same
  constructor; so after construction from any two-dimensional array the data has at least
  as many rows as columns. The wide array is neither kept nor rejected: the constructor
  returns.
\<close>

theorem wide_array_is_stored_transposed:
  "(nrows a < ncols a \<longrightarrow> data (Signal_init dsr (Array2 a) sr) = array_T a)
   \<and> nchannels (Signal_init dsr (Array2 a) sr) \<le> nsamples (Signal_init dsr (Array2 a) sr)
   \<and> ((fir_flag \<longrightarrow> have_scipy) \<longrightarrow>
        (\<exists>f. Filter_init have_scipy dsr (Array2 a) sr fir_flag = Inr f
             \<and> (nrows a < ncols a \<longrightarrow> data f = array_T a)
             \<and> nfilters f \<le> ntaps f))
   \<and> (2 \<le> nrows d \<and> 1 \<le> ncols d \<and> (rows d ! 1 ! 0 \<noteq> 0 \<longrightarrow> have_scipy) \<longrightarrow>
        (\<exists>g. load have_scipy dsr d = Inr g
             \<and> (nrows d - 2 < ncols d \<longrightarrow> data g = array_T (d\<lparr>rows := drop 2 (rows d)\<rparr>))
             \<and> nfilters g \<le> ntaps g))"
proof (intro conjI impI)
  assume "nrows a < ncols a"
  then show "data (Signal_init dsr (Array2 a) sr) = array_T a"
    by (simp add: Signal_init_def Signal_data_Array2_wide)
next
  show "nchannels (Signal_init dsr (Array2 a) sr) \<le> nsamples (Signal_init dsr (Array2 a) sr)"
    by (simp add: Signal_init_def nchannels_def nsamples_def Signal_data_Array2_shape)
next
  assume "fir_flag \<longrightarrow> have_scipy"
  then show "\<exists>f. Filter_init have_scipy dsr (Array2 a) sr fir_flag = Inr f
                \<and> (nrows a < ncols a \<longrightarrow> data f = array_T a) \<and> nfilters f \<le> ntaps f"
    by (auto simp add: Filter_init_def nfilters_def ntaps_def nchannels_def nsamples_def
        Signal_data_Array2_shape Signal_data_Array2_wide)
next
  let ?body = "d\<lparr>rows := drop 2 (rows d)\<rparr>"
  assume h: "2 \<le> nrows d \<and> 1 \<le> ncols d \<and> (rows d ! 1 ! 0 \<noteq> 0 \<longrightarrow> have_scipy)"
  have shape: "nrows ?body = nrows d - 2" "ncols ?body = ncols d"
    by (simp_all add: nrows_def)
  from h have "load have_scipy dsr d
               = Inr \<lparr>data = Signal_data (Array2 ?body), samplerate = rows d ! 0 ! 0,
                      fir = (rows d ! 1 ! 0 \<noteq> 0)\<rparr>"
    by (auto simp add: load_def Let_def Filter_init_def get_samplerate_def)
  moreover have "nrows d - 2 < ncols d \<longrightarrow> Signal_data (Array2 ?body) = array_T ?body"
    using Signal_data_Array2_wide [of ?body] shape by simp
  moreover have "ncols (Signal_data (Array2 ?body)) \<le> nrows (Signal_data (Array2 ?body))"
    by (rule Signal_data_Array2_shape)
  ultimately show "\<exists>g. load have_scipy dsr d = Inr g
                     \<and> (nrows d - 2 < ncols d \<longrightarrow> data g = array_T ?body)
                     \<and> nfilters g \<le> ntaps g"
    by (simp add: nfilters_def ntaps_def nchannels_def nsamples_def)
qed

theorem wide_array_is_stored_transposed_witness:
  "data (Signal_init 8000 (Array2 \<lparr>ncols = 3, rows = [[1, 2, 3], [4, 5, 6]]\<rparr>) None)
     = \<lparr>ncols = 2, rows = [[1, 4], [2, 5], [3, 6]]\<rparr>
   \<and> (\<exists>f. Filter_init True 8000 (Array2 \<lparr>ncols = 3, rows = [[1, 2, 3], [4, 5, 6]]\<rparr>) None True = Inr f
          \<and> data f = \<lparr>ncols = 2, rows = [[1, 4], [2, 5], [3, 6]]\<rparr> \<and> nfilters f \<le> ntaps f)
   \<and> (\<exists>g. load True 8000 \<lparr>ncols = 3, rows = [[8000, 8000, 8000], [1, 1, 1], [1, 2, 3], [4, 5, 6]]\<rparr> = Inr g
          \<and> data g = \<lparr>ncols = 2, rows = [[1, 4], [2, 5], [3, 6]]\<rparr> \<and> nfilters g \<le> ntaps g)"
  using wide_array_is_stored_transposed
    [of "\<lparr>ncols = 3, rows = [[1, 2, 3], [4, 5, 6]]\<rparr>" 8000 None True True
        "\<lparr>ncols = 3, rows = [[8000, 8000, 8000], [1, 1, 1], [1, 2, 3], [4, 5, 6]]\<rparr>"]
  by (simp add: nrows_def array_T_def col_def upt_3 numeral_2_eq_2 [symmetric])

section \<open>The errors of \<open>apply\<close>\<close>

text \<open>No routine that \<open>apply\<close> calls raises the rate error: it is raised by the first check only.\<close>

lemma bindE_rate_iff:
  "bindE m f = Inl RateMismatchError
     \<longleftrightarrow> (\<exists>x. m = Inr x \<and> f x = Inl RateMismatchError) \<or> m = Inl RateMismatchError"
  by (cases m) (auto simp add: bindE_def)

lemma foldE_not_rate:
  "(\<And>i s. f i s \<noteq> Inl RateMismatchError) \<Longrightarrow> foldE f js s \<noteq> Inl RateMismatchError"
proof (induction js arbitrary: s)
  case Nil
  then show ?case by simp
next
  case (Cons j js)
  show ?case
  proof (cases "f j s")
    case (Inl e)
    with Cons.prems [of j s] show ?thesis by simp
  next
    case (Inr s')
    with Cons.IH [OF Cons.prems] show ?thesis by simp
  qed
qed

lemma foldE_rate_iff:
  "(\<And>i s. f i s \<noteq> Inl RateMismatchError) \<Longrightarrow> (foldE f js s = Inl RateMismatchError) = False"
  using foldE_not_rate [of f js s] by simp

lemma py_div_not_rate: "py_div a b \<noteq> Inl RateMismatchError"
  by (simp add: py_div_def)

lemma rfftfreq_not_rate: "rfftfreq n d \<noteq> Inl RateMismatchError"
  by (simp add: rfftfreq_def bindE_rate_iff py_div_not_rate)

lemma lfilter_not_rate: "lfilter hs b x \<noteq> Inl RateMismatchError"
  by (simp add: lfilter_def split: ndarray.splits)

lemma set_col_not_rate: "set_col a j v \<noteq> Inl RateMismatchError"
  by (simp add: set_col_def)

lemma interp_not_rate: "interp x xp fp \<noteq> Inl RateMismatchError"
  by (simp add: interp_def split: ndarray.splits)

lemma irfft_not_rate: "irfft X \<noteq> Inl RateMismatchError"
  by (simp add: irfft_def Let_def)

lemma mul_arrays_not_rate: "mul_arrays X w \<noteq> Inl RateMismatchError"
  by (simp add: mul_arrays_def)

lemma store_irfft_not_rate: "store_irfft X w j out \<noteq> Inl RateMismatchError"
  by (simp add: store_irfft_def bindE_rate_iff mul_arrays_not_rate irfft_not_rate set_col_not_rate)

lemma rfft_axis0_not_rate: "rfft_axis0 a \<noteq> Inl RateMismatchError"
  by (simp add: rfft_axis0_def)

lemma frequencies_not_rate: "frequencies f \<noteq> Inl RateMismatchError"
  by (simp add: frequencies_def bindE_rate_iff py_div_not_rate rfftfreq_not_rate)

text \<open>
  C3, as the code has it. The claim excuses a mismatch when either rate is 1; the check
  reads \<open>self.samplerate != 1\<close> only, so a signal whose own samplerate is 1 is still
  refused by a filter of another rate.
\<close>

theorem rate_error_with_signal_rate_1:
  "Filter_apply True
     \<lparr>data = \<lparr>ncols = 1, rows = [[1], [1]]\<rparr>, samplerate = 8000, fir = False\<rparr>
     \<lparr>data = \<lparr>ncols = 1, rows = [[1], [1]]\<rparr>, samplerate = 1\<rparr>
   = Inl RateMismatchError"
  by (simp add: Filter_apply_def)

text \<open>
  C3, amended: \<open>apply\<close> raises the rate-mismatch error if and only if the two samplerates
  differ and the filter's samplerate is not 1.
\<close>

theorem rate_error_iff:
  "Filter_apply have_scipy self sig = Inl RateMismatchError
     \<longleftrightarrow> samplerate self \<noteq> samplerate sig \<and> samplerate self \<noteq> 1"
proof (cases "samplerate self \<noteq> samplerate sig \<and> samplerate self \<noteq> 1")
  case True
  then show ?thesis by (simp add: Filter_apply_def)
next
  case False
  have "Filter_apply have_scipy self sig \<noteq> Inl RateMismatchError"
    using False unfolding Filter_apply_def
    by (simp add: bindE_rate_iff foldE_rate_iff lfilter_not_rate set_col_not_rate
          interp_not_rate store_irfft_not_rate rfft_axis0_not_rate frequencies_not_rate
          py_div_not_rate rfftfreq_not_rate split: option.splits)
  with False show ?thesis by blast
qed

theorem rate_error_iff_witness:
  "Filter_apply True
     \<lparr>data = \<lparr>ncols = 1, rows = [[1], [1]]\<rparr>, samplerate = 1, fir = False\<rparr>
     \<lparr>data = \<lparr>ncols = 1, rows = [[1], [1]]\<rparr>, samplerate = 8000\<rparr>
   \<noteq> Inl RateMismatchError
   \<and> Filter_apply True
     \<lparr>data = \<lparr>ncols = 1, rows = [[1], [1]]\<rparr>, samplerate = 44100, fir = False\<rparr>
     \<lparr>data = \<lparr>ncols = 1, rows = [[1], [1]]\<rparr>, samplerate = 8000\<rparr>
   = Inl RateMismatchError"
  using rate_error_iff
    [of True "\<lparr>data = \<lparr>ncols = 1, rows = [[1], [1]]\<rparr>, samplerate = 1, fir = False\<rparr>"
        "\<lparr>data = \<lparr>ncols = 1, rows = [[1], [1]]\<rparr>, samplerate = 8000\<rparr>"]
    rate_error_iff
    [of True "\<lparr>data = \<lparr>ncols = 1, rows = [[1], [1]]\<rparr>, samplerate = 44100, fir = False\<rparr>"
        "\<lparr>data = \<lparr>ncols = 1, rows = [[1], [1]]\<rparr>, samplerate = 8000\<rparr>"]
  by simp

text \<open>What the frequency-domain branch computes before it looks at the counts.\<close>

lemma rfft_axis0_Inr:
  "nrows a \<noteq> 0 \<Longrightarrow> rfft_axis0 a = Inr (map (\<lambda>j. rfft (col a j)) [0..<ncols a])"
  by (simp add: rfft_axis0_def)

lemma rfftfreq_Inr:
  "n \<noteq> 0 \<Longrightarrow> d \<noteq> 0 \<Longrightarrow>
   rfftfreq n d = Inr (map (\<lambda>i. real i * (1 / (real_of_int n * d))) [0..<nat (n div 2 + 1)])"
  by (simp add: rfftfreq_def py_div_def bindE_def)

lemma frequencies_Inr:
  assumes "\<not> fir self" and "samplerate self \<noteq> 0"
  shows "\<exists>bins. frequencies self = Inr (Some bins) \<and> length bins = ntaps self"
proof -
  have n: "int (ntaps self) * 2 - 1 \<noteq> 0" by presburger
  have len: "nat ((int (ntaps self) * 2 - 1) div 2 + 1) = ntaps self" by linarith
  from assms n show ?thesis
    by (simp add: frequencies_def py_div_def bindE_def rfftfreq_Inr len)
qed

lemma signal_bins_Inr:
  assumes "n \<noteq> 0" and "sr \<noteq> 0"
  shows "\<exists>bins. rfftfreq (int n) (1 / sr) = Inr bins \<and> length bins = n div 2 + 1"
proof -
  have len: "nat (int n div 2 + 1) = n div 2 + 1" by linarith
  from assms have "rfftfreq (int n) (1 / sr)
      = Inr (map (\<lambda>i. real i * (1 / (real_of_int (int n) * (1 / sr)))) [0..<nat (int n div 2 + 1)])"
    by (intro rfftfreq_Inr) simp_all
  then show ?thesis by (simp only: len length_map length_upt) simp
qed

lemma apply_count_mismatch:
  assumes compat: "samplerate self = samplerate sig \<or> samplerate self = 1"
    and ne: "nfilters self \<noteq> nchannels sig"
    and f1: "nfilters self \<noteq> 1"
    and c1: "nchannels sig \<noteq> 1"
  shows "(\<exists>e. Filter_apply have_scipy self sig = Inl e)
         \<and> (fir self \<or> (nsamples sig \<noteq> 0 \<and> samplerate sig \<noteq> 0 \<and> samplerate self \<noteq> 0)
              \<longrightarrow> Filter_apply have_scipy self sig = Inl ShapeMismatchError)"
proof (cases "fir self")
  case True
  with assms have "Filter_apply have_scipy self sig = Inl ShapeMismatchError"
    by (auto simp add: Filter_apply_def)
  then show ?thesis by simp
next
  case False
  have 1: "\<exists>e. Filter_apply have_scipy self sig = Inl e"
    using False ne f1 c1 unfolding Filter_apply_def
    by (auto simp add: bindE_def split: sum.splits option.splits)
  have 2: "Filter_apply have_scipy self sig = Inl ShapeMismatchError"
    if h: "nsamples sig \<noteq> 0 \<and> samplerate sig \<noteq> 0 \<and> samplerate self \<noteq> 0"
  proof -
    from h have r: "rfft_axis0 (data sig)
                    = Inr (map (\<lambda>j. rfft (col (data sig) j)) [0..<ncols (data sig)])"
      by (simp add: rfft_axis0_Inr nsamples_def)
    from h False obtain fb where fb: "frequencies self = Inr (Some fb)"
      using frequencies_Inr by blast
    from h have d: "py_div 1 (samplerate sig) = Inr (1 / samplerate sig)"
      by (simp add: py_div_def)
    from h obtain sb where sb: "rfftfreq (int (nsamples sig)) (1 / samplerate sig) = Inr sb"
      using signal_bins_Inr by blast
    show ?thesis
      using False compat ne f1 c1 unfolding Filter_apply_def
      by (auto simp add: r fb d sb bindE_def)
  qed
  from 1 2 False show ?thesis by blast
qed

text \<open>
  C4. With compatible samplerates, a filter count and a channel count that differ and are
  both other than 1 make \<open>apply\<close> raise: no signal is returned. The exception is the
  shape-mismatch error in the time-domain branch, and in the frequency-domain branch
  whenever the signal has a sample and both samplerates are nonzero (the branch computes
  the spectrum and the frequency bins, which need them, before it compares the counts).
\<close>

theorem mismatched_counts_raise:
  assumes compat: "samplerate self = samplerate sig \<or> samplerate self = 1"
    and ne: "nfilters self \<noteq> nchannels sig"
    and f1: "nfilters self \<noteq> 1"
    and c1: "nchannels sig \<noteq> 1"
  shows "(\<exists>e. Filter_apply have_scipy self sig = Inl e)
         \<and> (fir self \<or> (nsamples sig \<noteq> 0 \<and> samplerate sig \<noteq> 0 \<and> samplerate self \<noteq> 0)
              \<longrightarrow> Filter_apply have_scipy self sig = Inl ShapeMismatchError)"
  using assms by (rule apply_count_mismatch)

theorem mismatched_counts_raise_witness:
  "Filter_apply True
     \<lparr>data = \<lparr>ncols = 3, rows = [[1, 0, 0], [0, 1, 0], [0, 0, 1]]\<rparr>, samplerate = 8000, fir = True\<rparr>
     \<lparr>data = \<lparr>ncols = 2, rows = [[1, 2], [3, 4]]\<rparr>, samplerate = 8000\<rparr>
   = Inl ShapeMismatchError
   \<and> Filter_apply True
     \<lparr>data = \<lparr>ncols = 3, rows = [[1, 0, 0], [0, 1, 0], [0, 0, 1]]\<rparr>, samplerate = 8000, fir = False\<rparr>
     \<lparr>data = \<lparr>ncols = 2, rows = [[1, 2], [3, 4]]\<rparr>, samplerate = 8000\<rparr>
   = Inl ShapeMismatchError"
  using mismatched_counts_raise
    [of "\<lparr>data = \<lparr>ncols = 3, rows = [[1, 0, 0], [0, 1, 0], [0, 0, 1]]\<rparr>, samplerate = 8000, fir = True\<rparr>"
        "\<lparr>data = \<lparr>ncols = 2, rows = [[1, 2], [3, 4]]\<rparr>, samplerate = 8000\<rparr>" True]
    mismatched_counts_raise
    [of "\<lparr>data = \<lparr>ncols = 3, rows = [[1, 0, 0], [0, 1, 0], [0, 0, 1]]\<rparr>, samplerate = 8000, fir = False\<rparr>"
        "\<lparr>data = \<lparr>ncols = 2, rows = [[1, 2], [3, 4]]\<rparr>, samplerate = 8000\<rparr>" True]
  by (simp add: nfilters_def nchannels_def nsamples_def nrows_def)

section \<open>One filter, many channels\<close>

text \<open>
  C1. With one filter and more than one channel \<open>apply\<close> never returns a signal. Both
  branches hand the whole two-dimensional \<open>self.data\<close>, of shape \<open>(N, 1)\<close>, to a routine
  that takes a one-dimensional array (\<open>lfilter\<close> as the numerator, \<open>numpy.interp\<close> as
  \<open>fp\<close>), where the pairwise and fan-out loops pass the column \<open>self[:, i]\<close>. Whenever
  the call is reached (scipy imported for an FIR filter; a sample and nonzero samplerates
  for a frequency-domain filter) the exception is that routine's \<open>ValueError\<close>.
\<close>

theorem broadcast_apply_raises:
  assumes f1: "nfilters self = 1" and c1: "1 < nchannels sig"
  shows "(\<exists>e. Filter_apply have_scipy self sig = Inl e)
         \<and> ((samplerate self = samplerate sig \<or> samplerate self = 1)
              \<and> (fir self \<longrightarrow> have_scipy)
              \<and> (\<not> fir self \<longrightarrow> nsamples sig \<noteq> 0 \<and> samplerate sig \<noteq> 0 \<and> samplerate self \<noteq> 0)
              \<longrightarrow> Filter_apply have_scipy self sig = Inl NumpyValueError)"
proof
  show "\<exists>e. Filter_apply have_scipy self sig = Inl e"
    using assms unfolding Filter_apply_def
    by (auto simp add: bindE_def lfilter_def interp_def split: sum.splits option.splits)
next
  show "(samplerate self = samplerate sig \<or> samplerate self = 1)
        \<and> (fir self \<longrightarrow> have_scipy)
        \<and> (\<not> fir self \<longrightarrow> nsamples sig \<noteq> 0 \<and> samplerate sig \<noteq> 0 \<and> samplerate self \<noteq> 0)
        \<longrightarrow> Filter_apply have_scipy self sig = Inl NumpyValueError"
  proof (intro impI, elim conjE)
    assume compat: "samplerate self = samplerate sig \<or> samplerate self = 1"
      and scipy: "fir self \<longrightarrow> have_scipy"
      and pre: "\<not> fir self \<longrightarrow> nsamples sig \<noteq> 0 \<and> samplerate sig \<noteq> 0 \<and> samplerate self \<noteq> 0"
    show "Filter_apply have_scipy self sig = Inl NumpyValueError"
    proof (cases "fir self")
      case True
      with compat scipy f1 c1 show ?thesis
        by (auto simp add: Filter_apply_def lfilter_def bindE_def)
    next
      case False
      with pre have h: "nsamples sig \<noteq> 0 \<and> samplerate sig \<noteq> 0 \<and> samplerate self \<noteq> 0" by simp
      from h have r: "rfft_axis0 (data sig)
                      = Inr (map (\<lambda>j. rfft (col (data sig) j)) [0..<ncols (data sig)])"
        by (simp add: rfft_axis0_Inr nsamples_def)
      from h False obtain fb where fb: "frequencies self = Inr (Some fb)"
        using frequencies_Inr by blast
      from h have d: "py_div 1 (samplerate sig) = Inr (1 / samplerate sig)"
        by (simp add: py_div_def)
      from h obtain sb where sb: "rfftfreq (int (nsamples sig)) (1 / samplerate sig) = Inr sb"
        using signal_bins_Inr by blast
      show ?thesis
        using False compat f1 c1 unfolding Filter_apply_def
        by (auto simp add: r fb d sb bindE_def interp_def)
    qed
  qed
qed

theorem broadcast_apply_raises_witness:
  "Filter_apply True
     \<lparr>data = \<lparr>ncols = 1, rows = [[1], [1]]\<rparr>, samplerate = 8000, fir = False\<rparr>
     \<lparr>data = \<lparr>ncols = 2, rows = [[1, 2], [3, 4], [5, 6], [7, 8]]\<rparr>, samplerate = 8000\<rparr>
   = Inl NumpyValueError
   \<and> Filter_apply True
     \<lparr>data = \<lparr>ncols = 1, rows = [[1], [1]]\<rparr>, samplerate = 8000, fir = True\<rparr>
     \<lparr>data = \<lparr>ncols = 2, rows = [[1, 2], [3, 4], [5, 6], [7, 8]]\<rparr>, samplerate = 8000\<rparr>
   = Inl NumpyValueError"
  using broadcast_apply_raises
    [of "\<lparr>data = \<lparr>ncols = 1, rows = [[1], [1]]\<rparr>, samplerate = 8000, fir = False\<rparr>"
        "\<lparr>data = \<lparr>ncols = 2, rows = [[1, 2], [3, 4], [5, 6], [7, 8]]\<rparr>, samplerate = 8000\<rparr>" True]
    broadcast_apply_raises
    [of "\<lparr>data = \<lparr>ncols = 1, rows = [[1], [1]]\<rparr>, samplerate = 8000, fir = True\<rparr>"
        "\<lparr>data = \<lparr>ncols = 2, rows = [[1, 2], [3, 4], [5, 6], [7, 8]]\<rparr>, samplerate = 8000\<rparr>" True]
  by (simp add: nfilters_def nchannels_def nsamples_def nrows_def)

section \<open>Many filters, one channel\<close>

lemma irfft_length: "irfft X = Inr y \<Longrightarrow> length y = 2 * (length X - 1)"
  by (auto simp add: irfft_def Let_def split: if_splits)

lemma irfft_error: "irfft X = Inl e \<Longrightarrow> e = NumpyValueError"
  by (auto simp add: irfft_def Let_def split: if_splits)

lemma interp_length: "interp x xp fp = Inr w \<Longrightarrow> length w = length x"
  by (auto simp add: interp_def split: ndarray.splits if_splits)

lemma interp_error: "interp x xp fp = Inl e \<Longrightarrow> e = NumpyValueError"
  by (auto simp add: interp_def split: ndarray.splits if_splits)

lemma rfft_length: "length (rfft x) = length x div 2 + 1"
  by (simp add: rfft_def Let_def)

lemma col_length: "length (col a j) = nrows a"
  by (simp add: col_def nrows_def)

text \<open>
  A signal of an odd number \<open>n\<close> of samples has \<open>n div 2 + 1\<close> bins, from which
  \<open>irfft\<close> makes \<open>n - 1\<close> samples: none at all when \<open>n = 1\<close>, and otherwise too few
  for a column of \<open>n\<close> rows.
\<close>

lemma store_irfft_odd:
  assumes "length X = n div 2 + 1" and "length w = n div 2 + 1" and "odd n"
    and "nrows out = n" and "j < ncols out"
  shows "store_irfft X w j out = Inl NumpyValueError"
proof (cases "irfft (map2 (\<lambda>z r. z * complex_of_real r) X w)")
  case (Inl e)
  with assms irfft_error [OF Inl] show ?thesis
    by (simp add: store_irfft_def mul_arrays_def bindE_def)
next
  case (Inr y)
  from irfft_length [OF Inr] assms have len: "length y = 2 * (n div 2)" by simp
  from \<open>odd n\<close> have "2 * (n div 2) \<noteq> n" by presburger
  moreover from \<open>odd n\<close> have "2 * (n div 2) \<noteq> 1" by presburger
  ultimately show ?thesis
    using assms Inr len by (simp add: store_irfft_def mul_arrays_def bindE_def set_col_def)
qed

text \<open>
  C2, as the code has it in the frequency-domain branch: a bank of more than one filter
  applied to a one-channel signal with an odd number of samples never returns; with
  compatible, nonzero samplerates the exception is numpy's \<open>ValueError\<close> from the first
  pass of the loop.
\<close>

theorem fanout_frequency_odd_raises:
  assumes nf: "\<not> fir self" and f1: "1 < nfilters self" and c1: "nchannels sig = 1"
    and odd: "odd (nsamples sig)"
  shows "(\<exists>e. Filter_apply have_scipy self sig = Inl e)
         \<and> ((samplerate self = samplerate sig \<or> samplerate self = 1)
              \<and> samplerate sig \<noteq> 0 \<and> samplerate self \<noteq> 0
              \<longrightarrow> Filter_apply have_scipy self sig = Inl NumpyValueError)"
proof -
  let ?X = "concat (map (\<lambda>j. rfft (col (data sig) j)) [0..<ncols (data sig)])"
  let ?e = "empty_array (nsamples sig) (nfilters self)"
  have up: "[0..<nfilters self] = 0 # [1..<nfilters self]"
    using f1 by (simp add: upt_rec)
  have body: "bindE (interp sb bins (Array1 (col (data self) 0))) (\<lambda>w. store_irfft ?X w 0 ?e)
              = Inl NumpyValueError"
    if sb: "length sb = nsamples sig div 2 + 1" for sb bins
  proof (cases "interp sb bins (Array1 (col (data self) 0))")
    case (Inl e)
    with interp_error [OF Inl] show ?thesis by (simp add: bindE_def)
  next
    case (Inr w)
    from interp_length [OF Inr] sb have lw: "length w = nsamples sig div 2 + 1" by simp
    from c1 have "?X = rfft (col (data sig) 0)"
      by (simp add: nchannels_def upt_1)
    then have lX: "length ?X = nsamples sig div 2 + 1"
      by (simp add: rfft_length col_length nsamples_def)
    have sh: "nrows ?e = nsamples sig" "0 < ncols ?e"
      using f1 by (simp_all add: empty_array_def nrows_def)
    from store_irfft_odd [OF lX lw odd sh] Inr show ?thesis by (simp add: bindE_def)
  qed
  have good: "Filter_apply have_scipy self sig = Inl NumpyValueError"
    if compat: "samplerate self = samplerate sig \<or> samplerate self = 1"
      and h: "samplerate sig \<noteq> 0" "samplerate self \<noteq> 0"
  proof -
    from odd have n0: "nsamples sig \<noteq> 0" by (cases "nsamples sig") simp_all
    from n0 have r: "rfft_axis0 (data sig)
                = Inr (map (\<lambda>j. rfft (col (data sig) j)) [0..<ncols (data sig)])"
      by (simp add: rfft_axis0_Inr nsamples_def)
    from h nf obtain fb where fb: "frequencies self = Inr (Some fb)"
      using frequencies_Inr by blast
    from h have d: "py_div 1 (samplerate sig) = Inr (1 / samplerate sig)"
      by (simp add: py_div_def)
    from n0 h obtain sb where sb: "rfftfreq (int (nsamples sig)) (1 / samplerate sig) = Inr sb"
        "length sb = nsamples sig div 2 + 1"
      using signal_bins_Inr by blast
    show ?thesis
      using nf compat f1 c1 unfolding Filter_apply_def
      by (simp add: r fb d sb(1) bindE_Inr bindE_Inl up body [OF sb(2)])
  qed
  have "\<exists>e. Filter_apply have_scipy self sig = Inl e"
  proof (cases "samplerate self = samplerate sig \<or> samplerate self = 1")
    case False
    then show ?thesis by (simp add: Filter_apply_def)
  next
    case compat: True
    from odd have n0: "nsamples sig \<noteq> 0" by (cases "nsamples sig") simp_all
    from n0 have r: "rfft_axis0 (data sig)
                = Inr (map (\<lambda>j. rfft (col (data sig) j)) [0..<ncols (data sig)])"
      by (simp add: rfft_axis0_Inr nsamples_def)
    show ?thesis
    proof (cases "samplerate sig = 0")
      case True
      then show ?thesis
        using nf compat unfolding Filter_apply_def
        by (simp add: r py_div_def bindE_Inr bindE_Inl)
    next
      case s: False
      show ?thesis
      proof (cases "samplerate self = 0")
        case True
        from n0 s obtain sb where sb: "rfftfreq (int (nsamples sig)) (1 / samplerate sig) = Inr sb"
          using signal_bins_Inr by blast
        from True nf have "frequencies self = Inl ZeroDivisionError"
          by (simp add: frequencies_def py_div_def bindE_Inl)
        with s sb show ?thesis
          using nf compat unfolding Filter_apply_def
          by (simp add: r py_div_def bindE_Inr bindE_Inl)
      next
        case False
        with good compat s show ?thesis by blast
      qed
    qed
  qed
  with good show ?thesis by blast
qed

theorem fanout_frequency_odd_raises_witness:
  "Filter_apply True
     \<lparr>data = \<lparr>ncols = 2, rows = [[1, 0], [0, 1]]\<rparr>, samplerate = 8000, fir = False\<rparr>
     \<lparr>data = \<lparr>ncols = 1, rows = [[1], [2], [3]]\<rparr>, samplerate = 8000\<rparr>
   = Inl NumpyValueError"
  using fanout_frequency_odd_raises
    [of "\<lparr>data = \<lparr>ncols = 2, rows = [[1, 0], [0, 1]]\<rparr>, samplerate = 8000, fir = False\<rparr>"
        "\<lparr>data = \<lparr>ncols = 1, rows = [[1], [2], [3]]\<rparr>, samplerate = 8000\<rparr>" True]
  by (simp add: nfilters_def nchannels_def nsamples_def nrows_def)

text \<open>
  The rest of C2 holds. Storing one full column after another fills the output; the
  lemma is about any loop whose pass \<open>j\<close> assigns \<open>v j\<close> to column \<open>j\<close>.
\<close>

lemma set_col_Inr:
  "j < ncols a \<Longrightarrow> length v = nrows a \<Longrightarrow>
   set_col a j v = Inr (a\<lparr>rows := map2 (\<lambda>r x. r[j := x]) (rows a) v\<rparr>)"
  by (simp add: set_col_def)

lemma col_update:
  assumes wf: "wf_array a" and j: "j < ncols a" and len: "length v = nrows a"
  shows "col (a\<lparr>rows := map2 (\<lambda>r x. r[j := x]) (rows a) v\<rparr>) k = (if k = j then v else col a k)"
proof (rule nth_equalityI)
  show "length (col (a\<lparr>rows := map2 (\<lambda>r x. r[j := x]) (rows a) v\<rparr>) k)
        = length (if k = j then v else col a k)"
    using len by (simp add: col_def nrows_def)
next
  fix i
  assume "i < length (col (a\<lparr>rows := map2 (\<lambda>r x. r[j := x]) (rows a) v\<rparr>) k)"
  then have i: "i < length (rows a)" "i < length v"
    using len by (simp_all add: col_def nrows_def)
  from wf i(1) have "length (rows a ! i) = ncols a"
    by (simp add: wf_array_def list_all_length)
  with j i show "col (a\<lparr>rows := map2 (\<lambda>r x. r[j := x]) (rows a) v\<rparr>) k ! i
                 = (if k = j then v else col a k) ! i"
    by (simp add: col_def)
qed

lemma wf_update:
  assumes wf: "wf_array a"
  shows "wf_array (a\<lparr>rows := map2 (\<lambda>r x. r[j := x]) (rows a) v\<rparr>)"
  using wf by (auto simp add: wf_array_def list_all_iff dest: set_zip_leftD)

lemma foldE_set_col:
  assumes "wf_array a"
    and "\<And>j out. j \<in> set js \<Longrightarrow> f j out = set_col out j (v j)"
    and "\<And>j. j \<in> set js \<Longrightarrow> length (v j) = nrows a \<and> j < ncols a"
  shows "\<exists>out. foldE f js a = Inr out \<and> wf_array out \<and> ncols out = ncols a \<and> nrows out = nrows a
               \<and> (\<forall>k. col out k = (if k \<in> set js then v k else col a k))"
  using assms
proof (induction js arbitrary: a)
  case Nil
  then show ?case by simp
next
  case (Cons j js)
  let ?a1 = "a\<lparr>rows := map2 (\<lambda>r x. r[j := x]) (rows a) (v j)\<rparr>"
  from Cons.prems(3) [of j] have j: "length (v j) = nrows a" "j < ncols a" by simp_all
  have step: "f j a = Inr ?a1"
    using Cons.prems(2) [of j a] j by (simp add: set_col_Inr)
  have wf1: "wf_array ?a1" using Cons.prems(1) by (rule wf_update)
  have sh: "ncols ?a1 = ncols a" "nrows ?a1 = nrows a"
    using j by (simp_all add: nrows_def)
  have "\<exists>out. foldE f js ?a1 = Inr out \<and> wf_array out \<and> ncols out = ncols ?a1 \<and> nrows out = nrows ?a1
               \<and> (\<forall>k. col out k = (if k \<in> set js then v k else col ?a1 k))"
  proof (rule Cons.IH [OF wf1])
    show "\<And>j out. j \<in> set js \<Longrightarrow> f j out = set_col out j (v j)"
      using Cons.prems(2) by simp
    show "\<And>i. i \<in> set js \<Longrightarrow> length (v i) = nrows ?a1 \<and> i < ncols ?a1"
      using Cons.prems(3) sh by simp
  qed
  then obtain out where out: "foldE f js ?a1 = Inr out" "wf_array out" "ncols out = ncols ?a1"
      "nrows out = nrows ?a1" "\<forall>k. col out k = (if k \<in> set js then v k else col ?a1 k)"
    by blast
  have "\<forall>k. col out k = (if k \<in> set (j # js) then v k else col a k)"
    using out(5) col_update [OF Cons.prems(1) j(2) j(1)] by auto
  with out sh step show ?case by simp
qed

lemma wf_empty_array: "wf_array (empty_array n c)"
  by (simp add: empty_array_def wf_array_def list_all_iff)

lemma flatten_single_column:
  "length c = n \<Longrightarrow> flatten (of_cols n [c]) = c"
  using map_nth [of c] by (simp add: flatten_def of_cols_def)

lemma fir_filter_length: "length (fir_filter b x) = length x"
  by (simp add: fir_filter_def)

text \<open>
  Time-domain fan-out: with scipy imported, at least one tap and at least one sample, the
  result has one channel per filter and the input's sample count, and channel \<open>i\<close> is
  the input channel filtered by filter column \<open>i\<close>.
\<close>

lemma fanout_fir:
  assumes fir: "fir self"
    and compat: "samplerate self = samplerate sig \<or> samplerate self = 1"
    and f1: "1 < nfilters self" and c1: "nchannels sig = 1"
    and taps: "1 \<le> ntaps self" and ns: "1 \<le> nsamples sig"
  shows "\<exists>out. Filter_apply True self sig = Inr out
           \<and> nchannels out = nfilters self \<and> nsamples out = nsamples sig
           \<and> samplerate out = samplerate sig \<and> wf_array (data out)
           \<and> (\<forall>i<nfilters self. col (data out) i = fir_filter (col (data self) i) (col (data sig) 0))"
proof -
  let ?v = "\<lambda>j. fir_filter (col (data self) j) (col (data sig) 0)"
  let ?f = "\<lambda>filt out. bindE (lfilter True (Array1 (col (data self) filt)) (data sig))
                          (\<lambda>y. set_col out filt (flatten y))"
  let ?e = "empty_array (nsamples sig) (nfilters self)"
  have body: "?f j out = set_col out j (?v j)" for j out
  proof -
    from taps have "col (data self) j \<noteq> []"
      by (auto simp add: col_def ntaps_def nsamples_def nrows_def)
    moreover from ns have "nrows (data sig) \<noteq> 0" by (simp add: nsamples_def)
    moreover from c1 have "ncols (data sig) = 1" by (simp add: nchannels_def)
    ultimately have "lfilter True (Array1 (col (data self) j)) (data sig)
                     = Inr (of_cols (nrows (data sig)) [?v j])"
      by (simp add: lfilter_def upt_1)
    moreover have "flatten (of_cols (nrows (data sig)) [?v j]) = ?v j"
      by (rule flatten_single_column) (simp add: fir_filter_length col_length)
    ultimately show ?thesis by (simp add: bindE_Inr)
  qed
  have "\<exists>out. foldE ?f [0..<nfilters self] ?e = Inr out \<and> wf_array out \<and> ncols out = ncols ?e
              \<and> nrows out = nrows ?e
              \<and> (\<forall>k. col out k = (if k \<in> set [0..<nfilters self] then ?v k else col ?e k))"
  proof (rule foldE_set_col [OF wf_empty_array])
    show "\<And>j out. j \<in> set [0..<nfilters self] \<Longrightarrow> ?f j out = set_col out j (?v j)"
      by (rule body)
    show "\<And>j. j \<in> set [0..<nfilters self] \<Longrightarrow> length (?v j) = nrows ?e \<and> j < ncols ?e"
      by (simp add: fir_filter_length col_length empty_array_def nrows_def nsamples_def)
  qed
  then obtain d where d: "foldE ?f [0..<nfilters self] ?e = Inr d" "wf_array d" "ncols d = ncols ?e"
      "nrows d = nrows ?e"
      "\<forall>k. col d k = (if k \<in> set [0..<nfilters self] then ?v k else col ?e k)"
    by blast
  have "Filter_apply True self sig = Inr (sig\<lparr>data := d\<rparr>)"
    using fir compat f1 c1 unfolding Filter_apply_def by (auto simp add: d(1) bindE_Inr)
  with d show ?thesis
    by (simp add: nchannels_def nsamples_def empty_array_def nrows_def)
qed

lemma filter_spectrum_even:
  assumes sb: "length sb = n div 2 + 1" and fb: "length fb = length h" "h \<noteq> []"
    and X: "length X = n div 2 + 1" and n: "even n" "n \<noteq> 0"
  shows "\<exists>y. filter_spectrum sb fb h X = Inr y \<and> length y = n"
proof -
  from fb have i: "interp sb fb (Array1 h) = Inr (map (interp1 (zip fb h)) sb)"
    by (auto simp add: interp_def)
  let ?w = "map (interp1 (zip fb h)) sb"
  from sb X have m: "mul_arrays X ?w = Inr (map2 (\<lambda>z r. z * complex_of_real r) X ?w)"
    by (simp add: mul_arrays_def)
  let ?P = "map2 (\<lambda>z r. z * complex_of_real r) X ?w"
  from sb X have lP: "length ?P = n div 2 + 1" by simp
  from n have nn: "2 * (n div 2) = n" by presburger
  with n lP obtain y where y: "irfft ?P = Inr y"
    by (auto simp add: irfft_def Let_def simp del: length_map length_zip)
  from irfft_length [OF y] lP nn have "length y = n" by simp
  with i m y show ?thesis by (simp add: filter_spectrum_def bindE_Inr)
qed

text \<open>
  Frequency-domain fan-out on an even, nonzero number of samples, with nonzero samplerates
  and at least one frequency bin in the filter: one channel per filter, the input's sample
  count, and channel \<open>i\<close> is the input channel's spectrum shaped by filter column \<open>i\<close>.
\<close>

lemma fanout_frequency_even:
  assumes nf: "\<not> fir self"
    and compat: "samplerate self = samplerate sig \<or> samplerate self = 1"
    and f1: "1 < nfilters self" and c1: "nchannels sig = 1"
    and taps: "1 \<le> ntaps self" and ns: "nsamples sig \<noteq> 0" "even (nsamples sig)"
    and sr: "samplerate sig \<noteq> 0" "samplerate self \<noteq> 0"
  shows "\<exists>out sb fb. Filter_apply have_scipy self sig = Inr out
           \<and> nchannels out = nfilters self \<and> nsamples out = nsamples sig
           \<and> samplerate out = samplerate sig \<and> wf_array (data out)
           \<and> rfftfreq (int (nsamples sig)) (1 / samplerate sig) = Inr sb
           \<and> frequencies self = Inr (Some fb)
           \<and> (\<forall>i<nfilters self.
                 filter_spectrum sb fb (col (data self) i) (rfft (col (data sig) 0)) = Inr (col (data out) i))"
proof -
  let ?X = "rfft (col (data sig) 0)"
  have r: "rfft_axis0 (data sig) = Inr [?X]"
    using ns c1 by (simp add: rfft_axis0_Inr nsamples_def nchannels_def upt_1)
  from nf sr obtain fb where fb: "frequencies self = Inr (Some fb)" "length fb = ntaps self"
    using frequencies_Inr by blast
  from sr have d: "py_div 1 (samplerate sig) = Inr (1 / samplerate sig)"
    by (simp add: py_div_def)
  from ns sr obtain sb where sb: "rfftfreq (int (nsamples sig)) (1 / samplerate sig) = Inr sb"
      "length sb = nsamples sig div 2 + 1"
    using signal_bins_Inr by blast
  let ?g = "\<lambda>j. filter_spectrum sb fb (col (data self) j) ?X"
  have ex: "\<exists>y. ?g j = Inr y \<and> length y = nsamples sig" for j
  proof (rule filter_spectrum_even [OF sb(2) _ _ _ ns(2) ns(1)])
    show "length fb = length (col (data self) j)"
      by (simp add: fb col_length ntaps_def nsamples_def)
    show "col (data self) j \<noteq> []"
      using taps by (auto simp add: col_def ntaps_def nsamples_def nrows_def)
    show "length ?X = nsamples sig div 2 + 1"
      by (simp add: rfft_length col_length nsamples_def)
  qed
  define v where "v j = (case ?g j of Inr y \<Rightarrow> y | Inl e \<Rightarrow> [])" for j
  have v: "?g j = Inr (v j)" "length (v j) = nsamples sig" for j
    using ex [of j] by (auto simp add: v_def)
  let ?f = "\<lambda>filt out. bindE (interp sb fb (Array1 (col (data self) filt)))
                          (\<lambda>w. store_irfft ?X w filt out)"
  let ?e = "empty_array (nsamples sig) (nfilters self)"
  have body: "?f j out = set_col out j (v j)" for j out
    using v(1) [of j]
    by (cases "interp sb fb (Array1 (col (data self) j))")
       (auto simp add: filter_spectrum_def store_irfft_def bindE_def split: sum.splits)
  have "\<exists>out. foldE ?f [0..<nfilters self] ?e = Inr out \<and> wf_array out \<and> ncols out = ncols ?e
              \<and> nrows out = nrows ?e
              \<and> (\<forall>k. col out k = (if k \<in> set [0..<nfilters self] then v k else col ?e k))"
  proof (rule foldE_set_col [OF wf_empty_array])
    show "\<And>j out. j \<in> set [0..<nfilters self] \<Longrightarrow> ?f j out = set_col out j (v j)"
      by (rule body)
    show "\<And>j. j \<in> set [0..<nfilters self] \<Longrightarrow> length (v j) = nrows ?e \<and> j < ncols ?e"
      by (simp add: v(2) empty_array_def nrows_def)
  qed
  then obtain dd where dd: "foldE ?f [0..<nfilters self] ?e = Inr dd" "wf_array dd" "ncols dd = ncols ?e"
      "nrows dd = nrows ?e"
      "\<forall>k. col dd k = (if k \<in> set [0..<nfilters self] then v k else col ?e k)"
    by blast
  have "Filter_apply have_scipy self sig = Inr (sig\<lparr>data := dd\<rparr>)"
    using nf compat f1 c1 unfolding Filter_apply_def
    by (auto simp add: r fb(1) d sb(1) dd(1) bindE_Inr)
  with dd sb(1) fb(1) v(1) show ?thesis
    by (simp add: nchannels_def nsamples_def empty_array_def nrows_def)
qed

section \<open>Rectangular filters: the frequency-domain mask\<close>

text \<open>With a nonzero samplerate and length, \<open>df\<close> is \<open>samplerate / (2 * length)\<close>.\<close>

lemma df_value:
  assumes "sr \<noteq> 0" and "L \<noteq> 0"
  shows "bindE (py_div 1 (sr / 2)) (\<lambda>st. bindE (py_div 1 (st * real L)) f) = f (sr / (2 * real L))"
  using assms by (simp add: py_div_def bindE_def)

lemma Filter_init_column:
  "Filter_init hs dsr (Array1 xs) (Some sr) False
   = Inr \<lparr>data = \<lparr>ncols = 1, rows = map (\<lambda>x. [x]) xs\<rparr>, samplerate = sr, fir = False\<rparr>"
  by (simp add: Filter_init_def Signal_data_def get_samplerate_def)

lemma column_filter_props:
  assumes "flt = \<lparr>data = \<lparr>ncols = 1, rows = map (\<lambda>x. [x]) xs\<rparr>, samplerate = sr, fir = b\<rparr>"
  shows "nfilters flt = 1" and "nfrequencies flt = length xs" and "col (data flt) 0 = xs"
    and "fir flt = b" and "samplerate flt = sr"
  using assms
  by (simp_all add: nfilters_def nfrequencies_def nchannels_def nsamples_def nrows_def col_def map_idI)

lemma length_set_slice: "length (set_slice xs a b v) = length xs"
  by (simp add: set_slice_def Let_def)

lemma set_slice_nth:
  "k < length xs \<Longrightarrow>
   set_slice xs a b v ! k =
     (if (case a of None \<Rightarrow> 0 | Some i \<Rightarrow> slice_bound (length xs) i) \<le> k
         \<and> k < (case b of None \<Rightarrow> length xs | Some i \<Rightarrow> slice_bound (length xs) i)
      then v else xs ! k)"
  by (simp add: set_slice_def Let_def)

lemma slice_bound_nonneg: "0 \<le> i \<Longrightarrow> k < n \<Longrightarrow> (k < slice_bound n i) = (int k < i)"
  by (auto simp add: slice_bound_def)

lemma slice_bound_nonneg_le: "0 \<le> i \<Longrightarrow> k < n \<Longrightarrow> (slice_bound n i \<le> k) = (i \<le> int k)"
  by (auto simp add: slice_bound_def)

text \<open>
  The parts of C7 that hold, for edges that round to a bin number that is not negative:
  the lowpass mask is 1 below the bin, the highpass mask from the bin on, the bandpass
  mask on the interval between the two bins, and the kind spelled \<open>'notch'\<close> gives the
  complement of that interval. Each result is a frequency-domain Filter with one filter
  and \<open>length\<close> bins.
\<close>

lemma lowpass_mask:
  assumes "sr \<noteq> 0" and "L \<noteq> 0" and "0 \<le> py_round (f / (sr / (2 * real L)))"
  shows "\<exists>flt. rectangular_filter hs dsr design (Scalar f) ''lp'' (Some sr) L False = Inr flt
            \<and> \<not> fir flt \<and> nfilters flt = 1 \<and> nfrequencies flt = L \<and> samplerate flt = sr
            \<and> (\<forall>k<L. col (data flt) 0 ! k = (if int k < py_round (f / (sr / (2 * real L))) then 1 else 0))"
proof -
  let ?xs = "set_slice (replicate L 0) None (Some (py_round (f / (sr / (2 * real L))))) 1"
  let ?flt = "\<lparr>data = \<lparr>ncols = 1, rows = map (\<lambda>x. [x]) ?xs\<rparr>, samplerate = sr, fir = False\<rparr>"
  have res: "rectangular_filter hs dsr design (Scalar f) ''lp'' (Some sr) L False = Inr ?flt"
    using assms
    by (simp add: rectangular_filter_def get_samplerate_def df_value scalar_bin_def bindE_Inr
        Filter_init_column)
  have len: "length ?xs = L" by (simp add: length_set_slice)
  have vals: "\<forall>k<L. ?xs ! k = (if int k < py_round (f / (sr / (2 * real L))) then 1 else 0)"
    using assms by (simp add: set_slice_nth length_set_slice slice_bound_nonneg slice_bound_nonneg_le)
  from res len vals column_filter_props [OF refl, of ?xs sr False] show ?thesis by simp
qed

lemma highpass_mask:
  assumes "sr \<noteq> 0" and "L \<noteq> 0" and "0 \<le> py_round (f / (sr / (2 * real L)))"
  shows "\<exists>flt. rectangular_filter hs dsr design (Scalar f) ''hp'' (Some sr) L False = Inr flt
            \<and> \<not> fir flt \<and> nfilters flt = 1 \<and> nfrequencies flt = L \<and> samplerate flt = sr
            \<and> (\<forall>k<L. col (data flt) 0 ! k = (if py_round (f / (sr / (2 * real L))) \<le> int k then 1 else 0))"
proof -
  let ?xs = "set_slice (replicate L 0) (Some (py_round (f / (sr / (2 * real L))))) None 1"
  let ?flt = "\<lparr>data = \<lparr>ncols = 1, rows = map (\<lambda>x. [x]) ?xs\<rparr>, samplerate = sr, fir = False\<rparr>"
  have res: "rectangular_filter hs dsr design (Scalar f) ''hp'' (Some sr) L False = Inr ?flt"
    using assms
    by (simp add: rectangular_filter_def get_samplerate_def df_value scalar_bin_def bindE_Inr
        Filter_init_column)
  have len: "length ?xs = L" by (simp add: length_set_slice)
  have vals: "\<forall>k<L. ?xs ! k = (if py_round (f / (sr / (2 * real L))) \<le> int k then 1 else 0)"
    using assms by (simp add: set_slice_nth length_set_slice slice_bound_nonneg slice_bound_nonneg_le)
  from res len vals column_filter_props [OF refl, of ?xs sr False] show ?thesis by simp
qed

lemma bandpass_mask:
  assumes "sr \<noteq> 0" and "L \<noteq> 0" and "0 \<le> py_round (f0 / (sr / (2 * real L)))"
    and "0 \<le> py_round (f1 / (sr / (2 * real L)))"
  shows "\<exists>flt. rectangular_filter hs dsr design (Pair f0 f1) ''bp'' (Some sr) L False = Inr flt
            \<and> \<not> fir flt \<and> nfilters flt = 1 \<and> nfrequencies flt = L \<and> samplerate flt = sr
            \<and> (\<forall>k<L. col (data flt) 0 ! k =
                  (if py_round (f0 / (sr / (2 * real L))) \<le> int k \<and> int k < py_round (f1 / (sr / (2 * real L)))
                   then 1 else 0))"
proof -
  let ?xs = "set_slice (replicate L 0) (Some (py_round (f0 / (sr / (2 * real L))))) (Some (py_round (f1 / (sr / (2 * real L))))) 1"
  let ?flt = "\<lparr>data = \<lparr>ncols = 1, rows = map (\<lambda>x. [x]) ?xs\<rparr>, samplerate = sr, fir = False\<rparr>"
  have res: "rectangular_filter hs dsr design (Pair f0 f1) ''bp'' (Some sr) L False = Inr ?flt"
    using assms
    by (simp add: rectangular_filter_def get_samplerate_def df_value pair_bins_def bindE_Inr
        Filter_init_column)
  have len: "length ?xs = L" by (simp add: length_set_slice)
  have vals: "\<forall>k<L. ?xs ! k = (if py_round (f0 / (sr / (2 * real L))) \<le> int k \<and> int k < py_round (f1 / (sr / (2 * real L))) then 1 else 0)"
    using assms by (simp add: set_slice_nth length_set_slice slice_bound_nonneg slice_bound_nonneg_le)
  from res len vals column_filter_props [OF refl, of ?xs sr False] show ?thesis by simp
qed

lemma notch_mask:
  assumes "sr \<noteq> 0" and "L \<noteq> 0" and "0 \<le> py_round (f0 / (sr / (2 * real L)))"
    and "0 \<le> py_round (f1 / (sr / (2 * real L)))"
  shows "\<exists>flt. rectangular_filter hs dsr design (Pair f0 f1) ''notch'' (Some sr) L False = Inr flt
            \<and> \<not> fir flt \<and> nfilters flt = 1 \<and> nfrequencies flt = L \<and> samplerate flt = sr
            \<and> (\<forall>k<L. col (data flt) 0 ! k =
                  (if py_round (f0 / (sr / (2 * real L))) \<le> int k \<and> int k < py_round (f1 / (sr / (2 * real L)))
                   then 0 else 1))"
proof -
  let ?xs = "set_slice (set_slice (replicate L 0) None (Some (py_round (f0 / (sr / (2 * real L))))) 1) (Some (py_round (f1 / (sr / (2 * real L))))) None 1"
  let ?flt = "\<lparr>data = \<lparr>ncols = 1, rows = map (\<lambda>x. [x]) ?xs\<rparr>, samplerate = sr, fir = False\<rparr>"
  have res: "rectangular_filter hs dsr design (Pair f0 f1) ''notch'' (Some sr) L False = Inr ?flt"
    using assms
    by (simp add: rectangular_filter_def get_samplerate_def df_value pair_bins_def bindE_Inr
        Filter_init_column)
  have len: "length ?xs = L" by (simp add: length_set_slice)
  have vals: "\<forall>k<L. ?xs ! k = (if py_round (f0 / (sr / (2 * real L))) \<le> int k \<and> int k < py_round (f1 / (sr / (2 * real L))) then 0 else 1)"
    using assms by (simp add: set_slice_nth length_set_slice slice_bound_nonneg slice_bound_nonneg_le)
  from res len vals column_filter_props [OF refl, of ?xs sr False] show ?thesis by simp
qed

text \<open>
  C7, where the code departs from it. The docstring names the kinds \<open>'lp'\<close>, \<open>'hp'\<close>,
  \<open>'bp'\<close> and \<open>'bs'\<close> (bandstop, notch), and the FIR branch tests for \<open>'bs'\<close>; the
  mask branch tests for \<open>'notch'\<close> instead, so for the bandstop kind \<open>'bs'\<close> none of its
  four \<open>if\<close>s fires and the filter returned is all zeros, whatever the edges.
\<close>

theorem bandstop_mask_is_all_zero:
  assumes "sr \<noteq> 0" and "L \<noteq> 0"
  shows "rectangular_filter have_scipy dsr design frequency ''bs'' (Some sr) L False
         = Inr \<lparr>data = \<lparr>ncols = 1, rows = replicate L [0]\<rparr>, samplerate = sr, fir = False\<rparr>"
  using assms
  by (simp add: rectangular_filter_def get_samplerate_def df_value bindE_Inr Filter_init_column)

theorem bandstop_mask_is_all_zero_witness:
  "rectangular_filter True 8000 (\<lambda>n c kw. Inl NumpyValueError) (Pair 1000 2000) ''bs'' (Some 8000) 8 False
   = Inr \<lparr>data = \<lparr>ncols = 1, rows = [[0], [0], [0], [0], [0], [0], [0], [0]]\<rparr>,
          samplerate = 8000, fir = False\<rparr>"
  using bandstop_mask_is_all_zero
    [of 8000 8 True 8000 "\<lambda>n c kw. Inl NumpyValueError" "Pair 1000 2000"]
  by (simp add: eval_nat_numeral)

section \<open>Rectangular filters: the FIR design\<close>

text \<open>What the FIR branch decides itself: which kinds pass zero frequency.\<close>

lemma pass_zero_of_kinds:
  "pass_zero_of ''lp'' = Some True" "pass_zero_of ''bs'' = Some True"
  "pass_zero_of ''hp'' = Some False" "pass_zero_of ''bp'' = Some False"
  "pass_zero_of ''notch'' = None"
  by (simp_all add: pass_zero_of_def)

text \<open>
  C8, where the code departs from it. The call is
  \<open>scipy.signal.firwin(length, frequency, pass_zero=pass_zero, samplerate=samplerate)\<close>,
  and \<open>firwin\<close> has no keyword \<open>samplerate\<close> (the sampling frequency is \<open>fs\<close>, as the
  call of \<open>firwin2\<close> in \<open>equalizing_filterbank\<close> writes it). So with scipy imported
  and any of the four kinds, the constructor raises \<open>TypeError\<close> and no filter is built,
  whatever the design routine would compute.
\<close>

theorem fir_rectangular_filter_raises:
  assumes "kind \<in> set [''lp'', ''hp'', ''bp'', ''bs'']"
  shows "rectangular_filter True dsr design frequency kind samplerate_arg length_arg True
         = Inl TypeError"
  using assms
  by (auto simp add: rectangular_filter_def pass_zero_of_def firwin_def firwin_keywords_def bindE_Inl)

theorem fir_rectangular_filter_raises_witness:
  "rectangular_filter True 8000 (\<lambda>n c kw. Inr (replicate n 0)) (Scalar 100) ''hp'' (Some 8000) 1001 True
   = Inl TypeError"
  using fir_rectangular_filter_raises
    [of "''hp''" 8000 "\<lambda>n c kw. Inr (replicate n 0)" "Scalar 100" "Some 8000" 1001]
  by simp

section \<open>The ERB cosine filterbank: how many filters\<close>

lemma py_round_of_int: "py_round (of_int k) = k"
  by (simp add: py_round_def)

lemma butlast_upt: "butlast [m..<n] = [m..<n - 1]"
  by (induction n) (auto simp add: upt_Suc_append butlast_append)

lemma interior_points:
  assumes "2 \<le> n"
  shows "butlast (tl (map (\<lambda>i. if 2 \<le> n \<and> i = n - 1 then b else a + real i * st) [0..<n]))
         = map (\<lambda>i. a + real i * st) [1..<n - 1]"
proof -
  have "butlast (tl (map (\<lambda>i. if 2 \<le> n \<and> i = n - 1 then b else a + real i * st) [0..<n]))
        = map (\<lambda>i. if 2 \<le> n \<and> i = n - 1 then b else a + real i * st) (butlast (tl [0..<n]))"
    by (simp only: map_butlast map_tl)
  also have "butlast (tl [0..<n]) = [1..<n - 1]"
    by (simp add: butlast_upt)
  also have "map (\<lambda>i. if 2 \<le> n \<and> i = n - 1 then b else a + real i * st) [1..<n - 1]
             = map (\<lambda>i. a + real i * st) [1..<n - 1]"
    by (rule map_cong) auto
  finally show ?thesis .
qed

lemma cos_filterbank_result:
  assumes sr: "sr \<noteq> 0" "sr = get_samplerate dsr samplerate_arg" and L: "L \<noteq> 0"
    and hi: "hi = (case hi_lim of None \<Rightarrow> sr / 2 | Some h \<Rightarrow> if h = 0 then sr / 2 else h)"
    and lims: "0 \<le> low_lim" "0 \<le> hi"
    and sp: "freq2erb (1000 * 2 powr bandwidth) - freq2erb 1000 \<noteq> 0"
    and cnt: "count = py_round ((freq2erb hi - freq2erb low_lim)
                                / (freq2erb (1000 * 2 powr bandwidth) - freq2erb 1000))"
    and c2: "2 \<le> count"
  shows "\<exists>fbank bw filts.
           cos_filterbank have_scipy dsr L bandwidth low_lim hi_lim samplerate_arg
             = Inr (fbank,
                    map erb2freq (map (\<lambda>i. freq2erb low_lim
                                            + real i * ((freq2erb hi - freq2erb low_lim) / real (nat count - 1)))
                                   [1..<nat count - 1]),
                    bw)
           \<and> \<not> fir fbank \<and> samplerate fbank = sr
           \<and> data fbank = Signal_data (Array2 filts)
           \<and> ncols filts = nat (count - 2) \<and> nrows filts = L div 2 + 1"
proof -
  from L sr obtain bins where bins: "rfftfreq (int L) (1 / sr) = Inr bins" "length bins = L div 2 + 1"
    using signal_bins_Inr by blast
  from lims have "0 < 1 + hi / (24.7 * 9.265)" "0 < 1 + low_lim / (24.7 * 9.265)"
    by (simp_all add: add_pos_nonneg)
  with sp cnt have ec: "erb_count bandwidth low_lim hi = Inr count"
    by (simp add: erb_count_def Let_def)
  from hi have hi': "(case hi_lim of None \<Rightarrow> sr / 2 | Some h \<Rightarrow> if h = 0 then sr / 2 else h) = hi"
    by simp
  from c2 have n2: "2 \<le> nat count" by simp
  have lin: "linspace (freq2erb low_lim) (freq2erb hi) count
        = Inr (map (\<lambda>i. if 2 \<le> nat count \<and> i = nat count - 1 then freq2erb hi
                        else freq2erb low_lim + real i * ((freq2erb hi - freq2erb low_lim) / real (nat count - 1)))
                 [0..<nat count],
               (freq2erb hi - freq2erb low_lim) / real (nat count - 1))"
    using c2 n2 by (simp add: linspace_def Let_def)
  define step where "step = (freq2erb hi - freq2erb low_lim) / real (nat count - 1)"
  define center where "center = map (\<lambda>i. freq2erb low_lim + real i * step) [1..<nat count - 1]"
  define filts where "filts = \<lparr>ncols = nat (count - 2),
      rows = map (\<lambda>f. map (\<lambda>i. if erb_defined f \<and> center ! i - step < freq2erb f
                                  \<and> freq2erb f < center ! i + step
                               then cos ((freq2erb f - center ! i) / (2 * step) * pi) else 0)
                        [0..<nat (count - 2)]) bins\<rparr>"
  have pts: "butlast (tl (map (\<lambda>i. if 2 \<le> nat count \<and> i = nat count - 1 then freq2erb hi
                        else freq2erb low_lim + real i * step) [0..<nat count])) = center"
    unfolding center_def by (rule interior_points [OF n2])
  have "cos_filterbank have_scipy dsr L bandwidth low_lim hi_lim samplerate_arg
        = Inr (\<lparr>data = Signal_data (Array2 filts), samplerate = sr, fir = False\<rparr>,
               map erb2freq center,
               if 0 < erb2freq (freq2erb 1000 + step) / 1000
               then Some (log 2 (erb2freq (freq2erb 1000 + step) / 1000)) else None)"
    unfolding cos_filterbank_def Let_def sr(2) [symmetric] hi'
    using sr(1) c2
    by (simp add: py_div_def bindE_Inr bins(1) ec lin [unfolded step_def [symmetric]]
        pts [unfolded One_nat_def] filts_def Filter_init_def get_samplerate_def del: of_nat_diff
        cong: if_cong)
  then show ?thesis
    by (auto simp add: filts_def center_def step_def nrows_def bins(2))
qed

text \<open>
  A concrete input on which the count is exact: with a bandwidth of one octave the step is
  \<open>9.265 * ln A\<close> for \<open>A = (c + 2000) / (c + 1000)\<close>, \<open>c = 24.7 * 9.265\<close>, and the upper
  limit \<open>c * (A ^ 5 - 1)\<close> lies exactly five steps above \<open>erb(0) = 0\<close>.
\<close>

lemma example_spacing:
  "freq2erb (1000 * 2 powr 1) - freq2erb 1000
   = 9.265 * ln ((24.7 * 9.265 + 2000) / (24.7 * 9.265 + 1000))"
proof -
  have "ln (1 + 2000 / (24.7 * 9.265)) - ln (1 + 1000 / (24.7 * 9.265))
        = ln ((1 + 2000 / (24.7 * 9.265)) / (1 + 1000 / (24.7 * 9.265 :: real)))"
    by (subst ln_div) simp_all
  also have "(1 + 2000 / (24.7 * 9.265)) / (1 + 1000 / (24.7 * 9.265 :: real))
             = (24.7 * 9.265 + 2000) / (24.7 * 9.265 + 1000)"
    by simp
  finally show ?thesis
    by (simp add: freq2erb_def algebra_simps)
qed

lemma example_spacing_pos: "0 < ln ((24.7 * 9.265 + 2000) / (24.7 * 9.265 + 1000 :: real))"
  by (rule ln_gt_zero) simp

lemma unit_plus_scaled: "c \<noteq> 0 \<Longrightarrow> 1 + c * (x - 1) / c = (x::real)"
  by simp

lemma example_hi:
  assumes "hi = 24.7 * 9.265 * (((24.7 * 9.265 + 2000) / (24.7 * 9.265 + 1000)) ^ 5 - 1)"
  shows "freq2erb hi = 9.265 * (5 * ln ((24.7 * 9.265 + 2000) / (24.7 * 9.265 + 1000)))"
    and "0 < hi"
proof -
  have "1 + 24.7 * 9.265 * (((24.7 * 9.265 + 2000) / (24.7 * 9.265 + 1000)) ^ 5 - 1) / (24.7 * 9.265)
        = ((24.7 * 9.265 + 2000) / (24.7 * 9.265 + 1000 :: real)) ^ 5"
    by (rule unit_plus_scaled) simp
  moreover have "ln (((24.7 * 9.265 + 2000) / (24.7 * 9.265 + 1000 :: real)) ^ 5)
                 = 5 * ln ((24.7 * 9.265 + 2000) / (24.7 * 9.265 + 1000))"
    by (subst ln_realpow) simp_all
  ultimately show "freq2erb hi = 9.265 * (5 * ln ((24.7 * 9.265 + 2000) / (24.7 * 9.265 + 1000)))"
    unfolding assms by (simp add: freq2erb_def)
  have "1 < ((24.7 * 9.265 + 2000) / (24.7 * 9.265 + 1000 :: real)) ^ 5"
    by (rule one_less_power) simp_all
  then show "0 < hi" unfolding assms by simp
qed

lemma example_low: "freq2erb 0 = 0"
  by (simp add: freq2erb_def)

lemma example_count:
  assumes "hi = 24.7 * 9.265 * (((24.7 * 9.265 + 2000) / (24.7 * 9.265 + 1000)) ^ 5 - 1)"
  shows "py_round ((freq2erb hi - freq2erb 0) / (freq2erb (1000 * 2 powr 1) - freq2erb 1000)) = 5"
proof -
  have "(freq2erb hi - freq2erb 0) / (freq2erb (1000 * 2 powr 1) - freq2erb 1000) = 5"
    unfolding example_hi(1) [OF assms] example_low example_spacing
    using example_spacing_pos by simp
  then show ?thesis
    using py_round_of_int [of 5] by simp
qed

lemma example_spacing_nonzero: "freq2erb (1000 * 2 powr 1) - freq2erb 1000 \<noteq> 0"
  unfolding example_spacing using example_spacing_pos by simp

lemma cos_filterbank_tall:
  assumes sr: "sr \<noteq> 0" "sr = get_samplerate dsr samplerate_arg" and L: "L \<noteq> 0"
    and hi: "hi = (case hi_lim of None \<Rightarrow> sr / 2 | Some h \<Rightarrow> if h = 0 then sr / 2 else h)"
    and lims: "0 \<le> low_lim" "0 \<le> hi"
    and sp: "freq2erb (1000 * 2 powr bandwidth) - freq2erb 1000 \<noteq> 0"
    and cnt: "count = py_round ((freq2erb hi - freq2erb low_lim)
                                / (freq2erb (1000 * 2 powr bandwidth) - freq2erb 1000))"
    and c3: "3 \<le> count"
    and fits: "nat (count - 2) \<le> L div 2 + 1"
  shows "\<exists>fbank bw.
           cos_filterbank have_scipy dsr L bandwidth low_lim hi_lim samplerate_arg
             = Inr (fbank,
                    map erb2freq (map (\<lambda>i. freq2erb low_lim
                                            + real i * ((freq2erb hi - freq2erb low_lim) / real (nat count - 1)))
                                   [1..<nat count - 1]),
                    bw)
           \<and> \<not> fir fbank \<and> samplerate fbank = sr
           \<and> nfilters fbank = nat (count - 2) \<and> nfrequencies fbank = L div 2 + 1"
proof -
  from c3 have c2: "2 \<le> count" by simp
  from cos_filterbank_result [OF sr L hi lims sp cnt c2, of have_scipy]
  obtain fbank bw filts where r:
    "cos_filterbank have_scipy dsr L bandwidth low_lim hi_lim samplerate_arg
       = Inr (fbank,
              map erb2freq (map (\<lambda>i. freq2erb low_lim
                                      + real i * ((freq2erb hi - freq2erb low_lim) / real (nat count - 1)))
                             [1..<nat count - 1]),
              bw)"
    "\<not> fir fbank" "samplerate fbank = sr" "data fbank = Signal_data (Array2 filts)"
    "ncols filts = nat (count - 2)" "nrows filts = L div 2 + 1"
    by blast
  from fits r(5,6) have "Signal_data (Array2 filts) = filts"
    by (simp add: Signal_data_Array2_tall)
  with r show ?thesis
    by (simp add: nfilters_def nfrequencies_def nchannels_def nsamples_def)
qed

text \<open>
  C5, amended: when the count \<open>round((erb(hi_lim) - erb(low_lim)) / step)\<close> is at least
  3 and the count less 2 is at most the number of frequency bins \<open>length div 2 + 1\<close>,
  \<open>cos_filterbank\<close> (nonzero samplerate and length, limits that are not negative) returns a frequency-domain Filter
  with that many filter columns, and the center frequencies are the interior points of the
  even spacing between \<open>erb(low_lim)\<close> and \<open>erb(hi_lim)\<close>, mapped back to Hz.
\<close>

theorem cos_filterbank_filter_count:
  assumes sr: "sr \<noteq> 0" "sr = get_samplerate dsr samplerate_arg" and L: "L \<noteq> 0"
    and hi: "hi = (case hi_lim of None \<Rightarrow> sr / 2 | Some h \<Rightarrow> if h = 0 then sr / 2 else h)"
    and lims: "0 \<le> low_lim" "0 \<le> hi"
    and sp: "freq2erb (1000 * 2 powr bandwidth) - freq2erb 1000 \<noteq> 0"
    and cnt: "count = py_round ((freq2erb hi - freq2erb low_lim)
                                / (freq2erb (1000 * 2 powr bandwidth) - freq2erb 1000))"
    and c3: "3 \<le> count"
    and fits: "nat (count - 2) \<le> L div 2 + 1"
  shows "\<exists>fbank bw.
           cos_filterbank have_scipy dsr L bandwidth low_lim hi_lim samplerate_arg
             = Inr (fbank,
                    map erb2freq (map (\<lambda>i. freq2erb low_lim
                                            + real i * ((freq2erb hi - freq2erb low_lim) / real (nat count - 1)))
                                   [1..<nat count - 1]),
                    bw)
           \<and> \<not> fir fbank \<and> samplerate fbank = sr
           \<and> nfilters fbank = nat (count - 2) \<and> nfrequencies fbank = L div 2 + 1"
  using assms by (rule cos_filterbank_tall)

theorem cos_filterbank_filter_count_witness:
  "map_sum id (\<lambda>r. (nfilters (fst r), nfrequencies (fst r), fir (fst r)))
     (cos_filterbank True 8000 8 1 0 (Some (24.7 * 9.265 * (((24.7 * 9.265 + 2000) / (24.7 * 9.265 + 1000)) ^ 5 - 1))) (Some 10000))
   = Inr (3, 5, False)"
proof -
  define hi :: real where "hi = 24.7 * 9.265 * (((24.7 * 9.265 + 2000) / (24.7 * 9.265 + 1000)) ^ 5 - 1)"
  have hi: "hi = (case Some hi of None \<Rightarrow> 10000 / 2 | Some h \<Rightarrow> if h = 0 then 10000 / 2 else h)"
    using example_hi(2) [OF hi_def] by simp
  have "map_sum id (\<lambda>r. (nfilters (fst r), nfrequencies (fst r), fir (fst r)))
          (cos_filterbank True 8000 8 1 0 (Some hi) (Some 10000)) = Inr (3, 5, False)"
    using cos_filterbank_filter_count
      [where sr = 10000 and dsr = 8000 and samplerate_arg = "Some 10000" and L = 8 and hi = hi
         and hi_lim = "Some hi" and bandwidth = 1 and count = 5 and low_lim = 0
         and have_scipy = True,
       OF _ _ _ hi _ _ example_spacing_nonzero example_count [OF hi_def, symmetric]]
      example_hi(2) [OF hi_def]
    by (auto simp add: get_samplerate_def)
  then show ?thesis unfolding hi_def .
qed

text \<open>
  C5, as the code has it. The bank is built as an array of \<open>length div 2 + 1\<close> rows and
  one column per filter and handed to the constructor, which transposes an array with
  more columns than rows. For \<open>length = 2\<close> (two bins), bandwidth 1 octave, \<open>low_lim = 0\<close>
  and an upper limit near 4263 Hz the count is 5, the claim promises 3 filter columns, and
  the Filter returned has 2 filters of 3 bins.
\<close>

theorem cos_filterbank_short_signal:
  "map_sum id (\<lambda>r. (nfilters (fst r), nfrequencies (fst r)))
     (cos_filterbank True 8000 2 1 0 (Some (24.7 * 9.265 * (((24.7 * 9.265 + 2000) / (24.7 * 9.265 + 1000)) ^ 5 - 1))) (Some 10000))
   = Inr (2, 3)
   \<and> py_round ((freq2erb (24.7 * 9.265 * (((24.7 * 9.265 + 2000) / (24.7 * 9.265 + 1000)) ^ 5 - 1)) - freq2erb 0) / (freq2erb (1000 * 2 powr 1) - freq2erb 1000)) - 2 = 3"
proof -
  define hi :: real where "hi = 24.7 * 9.265 * (((24.7 * 9.265 + 2000) / (24.7 * 9.265 + 1000)) ^ 5 - 1)"
  have hi: "hi = (case Some hi of None \<Rightarrow> 10000 / 2 | Some h \<Rightarrow> if h = 0 then 10000 / 2 else h)"
    using example_hi(2) [OF hi_def] by simp
  from cos_filterbank_result
      [where sr = 10000 and dsr = 8000 and samplerate_arg = "Some 10000" and L = 2 and hi = hi
         and hi_lim = "Some hi" and bandwidth = 1 and count = 5 and low_lim = 0
         and have_scipy = True,
      OF _ _ _ hi _ _ example_spacing_nonzero example_count [OF hi_def, symmetric]]
    example_hi(2) [OF hi_def]
  obtain fbank cf bw filts where r:
    "cos_filterbank True 8000 2 1 0 (Some hi) (Some 10000) = Inr (fbank, cf, bw)"
    "data fbank = Signal_data (Array2 filts)" "ncols filts = 3" "nrows filts = 2"
    by (auto simp add: get_samplerate_def)
  from r(3,4) have "Signal_data (Array2 filts) = array_T filts"
    by (simp add: Signal_data_Array2_wide)
  with r have "nfilters fbank = 2 \<and> nfrequencies fbank = 3"
    by (simp add: nfilters_def nfrequencies_def nchannels_def nsamples_def nrows_array_T ncols_array_T)
  with r(1) example_count [OF hi_def]
  have "map_sum id (\<lambda>r. (nfilters (fst r), nfrequencies (fst r)))
          (cos_filterbank True 8000 2 1 0 (Some hi) (Some 10000)) = Inr (2, 3)
        \<and> py_round ((freq2erb hi - freq2erb 0) / (freq2erb (1000 * 2 powr 1) - freq2erb 1000)) - 2 = 3"
    by simp
  then show ?thesis unfolding hi_def .
qed

section \<open>The equalizing filterbank: one filter per recorded channel\<close>

text \<open>
  The bank is built for a bandwidth of a fifth of an octave. Its step on the ERB scale is
  positive, and at a samplerate of 8000 the count of evenly spaced points lies between 5
  and 40 (rough bounds on \<open>2 powr (1/5)\<close> and on the logarithms are enough).
\<close>

lemma py_round_bounds: "x - 1 / 2 \<le> real_of_int (py_round x)" "real_of_int (py_round x) \<le> x + 1 / 2"
  unfolding py_round_def Let_def by (auto simp add: algebra_simps) linarith+

lemma erb_spacing_formula:
  "freq2erb (1000 * 2 powr bw) - freq2erb 1000
   = 9.265 * ln ((24.7 * 9.265 + 1000 * 2 powr bw) / (24.7 * 9.265 + 1000))"
proof -
  have p: "0 < 2 powr bw" by simp
  have "ln (1 + 1000 * 2 powr bw / (24.7 * 9.265)) - ln (1 + 1000 / (24.7 * 9.265))
        = ln ((1 + 1000 * 2 powr bw / (24.7 * 9.265)) / (1 + 1000 / (24.7 * 9.265 :: real)))"
  proof (rule ln_divide_pos [symmetric])
    have "0 < 1000 * 2 powr bw / (24.7 * 9.265 :: real)"
      using p by (intro divide_pos_pos mult_pos_pos) simp_all
    then show "0 < 1 + 1000 * 2 powr bw / (24.7 * 9.265 :: real)" by linarith
    show "0 < 1 + 1000 / (24.7 * 9.265 :: real)" by simp
  qed
  also have "(1 + 1000 * 2 powr bw / (24.7 * 9.265)) / (1 + 1000 / (24.7 * 9.265 :: real))
             = (24.7 * 9.265 + 1000 * 2 powr bw) / (24.7 * 9.265 + 1000)"
    by (simp add: field_simps)
  finally show ?thesis
    by (simp add: freq2erb_def algebra_simps)
qed

lemma fifth_root_bounds: "(1.123 :: real) \<le> 2 powr (1 / 5)" "2 powr (1 / 5) \<le> (1.25 :: real)"
proof -
  have five: "(2 powr (1 / 5)) ^ 5 = (2 :: real)"
    by (simp add: powr_power)
  have "(1.123 :: real) ^ 5 \<le> (2 powr (1 / 5)) ^ 5" unfolding five by (simp add: eval_nat_numeral)
  then show "(1.123 :: real) \<le> 2 powr (1 / 5)"
    by (subst (asm) power_mono_iff) simp_all
  have "(2 powr (1 / 5)) ^ 5 \<le> (1.25 :: real) ^ 5" unfolding five by (simp add: eval_nat_numeral)
  then show "2 powr (1 / 5) \<le> (1.25 :: real)"
    by (subst (asm) power_mono_iff) simp_all
qed

lemma fifth_octave_ratio_bounds:
  "1.1 \<le> (24.7 * 9.265 + 1000 * 2 powr (1 / 5)) / (24.7 * 9.265 + 1000 :: real)"
  "(24.7 * 9.265 + 1000 * 2 powr (1 / 5)) / (24.7 * 9.265 + 1000 :: real) \<le> 1.21"
  using fifth_root_bounds by (simp_all add: field_simps)


lemma fifth_octave_spacing_pos: "0 < freq2erb (1000 * 2 powr (1 / 5)) - freq2erb 1000"
proof -
  have "1 < (24.7 * 9.265 + 1000 * 2 powr (1 / 5)) / (24.7 * 9.265 + 1000 :: real)"
    using fifth_octave_ratio_bounds(1) by linarith
  then have "0 < ln ((24.7 * 9.265 + 1000 * 2 powr (1 / 5)) / (24.7 * 9.265 + 1000 :: real))"
    by (rule ln_gt_zero)
  then show ?thesis unfolding erb_spacing_formula by simp
qed

lemma count_bounds_8000:
  assumes "count = py_round ((freq2erb (8000 / 2) - freq2erb 0)
                             / (freq2erb (1000 * 2 powr (1 / 5)) - freq2erb 1000))"
  shows "5 \<le> count" and "count \<le> 40"
proof -
  define B :: real where "B = (24.7 * 9.265 + 1000 * 2 powr (1 / 5)) / (24.7 * 9.265 + 1000)"
  define X :: real where "X = 1 + 4000 / (24.7 * 9.265)"
  have B: "1.1 \<le> B" "B \<le> 1.21"
    unfolding B_def by (rule fifth_octave_ratio_bounds)+
  have Bpos: "0 < B" "0 < ln B" using B(1) by simp_all
  have Xpos: "0 < X" unfolding X_def by simp
  have ratio: "(freq2erb (8000 / 2) - freq2erb 0) / (freq2erb (1000 * 2 powr (1 / 5)) - freq2erb 1000)
               = ln X / ln B"
    unfolding erb_spacing_formula B_def [symmetric]
    using Bpos by (simp add: freq2erb_def X_def)
  have "B ^ 11 \<le> 1.21 ^ 11" using B Bpos by (intro power_mono) simp_all
  also have "(1.21 :: real) ^ 11 \<le> X ^ 2" unfolding X_def by (simp add: eval_nat_numeral)
  finally have "ln (B ^ 11) \<le> ln (X ^ 2)" using Bpos Xpos by simp
  then have lo: "11 * ln B \<le> 2 * ln X" by (simp add: ln_realpow)
  have "X \<le> 1.1 ^ 40" unfolding X_def by (simp add: eval_nat_numeral)
  also have "(1.1 :: real) ^ 40 \<le> B ^ 40" using B by (intro power_mono) simp_all
  finally have "ln X \<le> ln (B ^ 40)" using Bpos Xpos by simp
  then have hi: "ln X \<le> 40 * ln B" by (simp add: ln_realpow)
  from lo Bpos have "11 / 2 \<le> ln X / ln B" by (simp add: field_simps)
  with py_round_bounds(1) [of "ln X / ln B"] have "5 \<le> real_of_int (py_round (ln X / ln B))" by linarith
  then show "5 \<le> count" unfolding assms ratio by linarith
  from hi Bpos have "ln X / ln B \<le> 40" by (simp add: field_simps)
  with py_round_bounds(2) [of "ln X / ln B"] have "real_of_int (py_round (ln X / ln B)) \<le> 40 + 1 / 2" by linarith
  then show "count \<le> 40" unfolding assms ratio by linarith
qed

lemma channel_Inr:
  assumes "idx < nchannels r"
  shows "\<exists>ch. channel r idx = Inr ch \<and> nchannels ch = 1 \<and> nsamples ch = nsamples r
              \<and> samplerate ch = samplerate r"
  using assms by (simp add: channel_def nchannels_def nsamples_def nrows_def col_def)

lemma wf_ones: "wf_array (ones n c)"
  by (simp add: ones_def wf_array_def list_all_iff)

lemma wf_zeros: "wf_array (zeros n c)"
  by (simp add: zeros_def wf_array_def list_all_iff)

lemma row_entry:
  assumes "wf_array a" and "i < nrows a"
  shows "rows a ! i ! j = col a j ! i"
  using assms by (simp add: col_def nrows_def)

lemma flatten_nonempty:
  assumes "wf_array a" and "nrows a \<noteq> 0" and "ncols a \<noteq> 0"
  shows "flatten a \<noteq> []"
proof -
  from assms(2) obtain x xs where x: "rows a = x # xs"
    by (cases "rows a") (simp_all add: nrows_def)
  with assms(1) have "length x = ncols a" by (simp add: wf_array_def)
  with assms(3) have "x \<noteq> []" by auto
  with x show ?thesis by (simp add: flatten_def)
qed

lemma tile_T_entry: "i < length v \<Longrightarrow> j < c \<Longrightarrow> rows (tile_T v c) ! i ! j = v ! i"
  by (simp add: tile_T_def)

lemma amp_diffs_column:
  assumes wf: "wf_array lo" and sh: "nrows lo = length v" "ncols lo = c" and k: "2 \<le> length v"
    and idx: "idx < c"
  shows "\<exists>d. sub_arrays (tile_T v c) lo = Inr d
             \<and> col (sub_scalar d x) idx = map (\<lambda>k. v ! k - col lo idx ! k - x) [0..<length v]"
proof -
  have n: "nrows (tile_T v c) = length v" "ncols (tile_T v c) = c"
    by (simp_all add: tile_T_def nrows_def)
  let ?d = "\<lparr>ncols = c,
             rows = map (\<lambda>i. map (\<lambda>j.
                        rows (tile_T v c) ! (if nrows (tile_T v c) = 1 then 0 else i)
                                          ! (if ncols (tile_T v c) = 1 then 0 else j)
                        - rows lo ! (if nrows lo = 1 then 0 else i) ! (if ncols lo = 1 then 0 else j))
                      [0..<c]) [0..<length v]\<rparr>"
  have s: "sub_arrays (tile_T v c) lo = Inr ?d"
    by (simp add: sub_arrays_def broadcast_dim_def n sh)
  have "col (sub_scalar ?d x) idx = map (\<lambda>k. v ! k - col lo idx ! k - x) [0..<length v]"
  proof (rule nth_equalityI)
    show "length (col (sub_scalar ?d x) idx) = length (map (\<lambda>k. v ! k - col lo idx ! k - x) [0..<length v])"
      by (simp add: col_def sub_scalar_def)
  next
    fix i
    assume "i < length (col (sub_scalar ?d x) idx)"
    then have i: "i < length v" by (simp add: col_def sub_scalar_def)
    with sh have il: "i < nrows lo" by simp
    from k have n1: "length v \<noteq> 1" by simp
    have j: "(if c = 1 then 0 else idx) = idx" using idx by auto
    have "rows lo ! i ! idx = col lo idx ! i" using wf il by (rule row_entry)
    moreover have "rows (tile_T v c) ! i ! idx = v ! i" using i idx by (rule tile_T_entry)
    ultimately show "col (sub_scalar ?d x) idx ! i = map (\<lambda>k. v ! k - col lo idx ! k - x) [0..<length v] ! i"
      using i idx n1 j by (simp add: col_def sub_scalar_def n sh)
  qed
  with s show ?thesis by blast
qed

text \<open>
  The steps of \<open>equalizing_filterbank\<close>, for a played signal of one channel: the bank,
  the levels of the played signal and of each recorded channel in every band, the
  reference level, the gains, one design per recorded channel, and the array of shape
  \<open>(1000, nchannels)\<close> that goes to the constructor.
\<close>

lemma equalizing_filterbank_lemma:
  fixes played recorded p r :: "'a signal_scheme"
  assumes hs: "have_scipy"
    and step1: "(if samplerate played > samplerate recorded
                 then bindE (resample played (samplerate recorded)) (\<lambda>p. Inr (p, recorded))
                 else bindE (resample recorded (samplerate played)) (\<lambda>r. Inr (played, r)))
                = Inr (p, r)"
    and p: "nchannels p = 1" "nsamples p \<noteq> 0" "even (nsamples p)" "0 < samplerate p"
    and r: "samplerate r = samplerate p" "nsamples r \<noteq> 0" "even (nsamples r)"
           "1 \<le> nchannels r"
    and cnt: "count = py_round ((freq2erb (samplerate p / 2) - freq2erb 0)
                                / (freq2erb (1000 * 2 powr (1 / 5)) - freq2erb 1000))"
             "4 \<le> count" "count \<le> 503"
    and lev: "\<And>s. length (level s) = nchannels s"
    and des: "\<And>kw. \<exists>t. design 1000 kw = Inr t \<and> length t = 1000"
  shows "\<exists>filt fbank centre bw out_in outs levels_out ref.
           equalizing_filterbank have_scipy dsr resample level design played recorded reference
             = Filter_init have_scipy dsr (Array2 filt) (Some (samplerate p)) True
           \<and> wf_array filt \<and> nrows filt = 1000 \<and> ncols filt = nchannels r
           \<and> cos_filterbank have_scipy dsr 1000 (1 / 5) 0 None (Some (samplerate p))
               = Inr (fbank, centre, bw)
           \<and> Filter_apply have_scipy fbank p = Inr out_in
           \<and> (\<forall>idx<nchannels r. \<exists>ch. channel r idx = Inr ch
                                     \<and> Filter_apply have_scipy fbank ch = Inr (outs idx))
           \<and> ncols levels_out = nchannels r \<and> nrows levels_out = length centre
           \<and> (\<forall>idx<nchannels r. col levels_out idx = level (outs idx))
           \<and> ref = (case reference of
                      RefMax \<Rightarrow> Max (set (flatten levels_out))
                    | RefMean \<Rightarrow> np_mean (flatten levels_out)
                    | RefValue v \<Rightarrow> v)
           \<and> (\<forall>idx<nchannels r.
                 design 1000
                   [(''freq'', KwArray (0 # centre @ [samplerate p / 2])),
                    (''gain'', KwArray (0 # map (\<lambda>k. level out_in ! k - level (outs idx) ! k - ref)
                                              [0..<length centre] @ [0])),
                    (''fs'', KwReal (samplerate p))]
                 = Inr (col filt idx))"
proof -
  let ?sr = "samplerate p"
  let ?C = "nchannels r"
  let ?K = "nat (count - 2)"
  from p(4) have sr0: "?sr \<noteq> 0" by simp
  \<comment> \<open>the filterbank\<close>
  have "\<exists>fbank bw.
           cos_filterbank have_scipy dsr 1000 (1 / 5) 0 None (Some ?sr)
             = Inr (fbank,
                    map erb2freq (map (\<lambda>i. freq2erb 0
                                            + real i * ((freq2erb (?sr / 2) - freq2erb 0) / real (nat count - 1)))
                                   [1..<nat count - 1]),
                    bw)
           \<and> \<not> fir fbank \<and> samplerate fbank = ?sr
           \<and> nfilters fbank = nat (count - 2) \<and> nfrequencies fbank = 1000 div 2 + 1"
  proof (rule cos_filterbank_tall [where hi = "?sr / 2"])
    show "?sr \<noteq> 0" by (rule sr0)
    show "?sr = get_samplerate dsr (Some ?sr)" by (simp add: get_samplerate_def)
    show "(1000 :: nat) \<noteq> 0" by simp
    show "?sr / 2 = (case None of None \<Rightarrow> ?sr / 2 | Some h \<Rightarrow> if h = 0 then ?sr / 2 else h)" by simp
    show "(0 :: real) \<le> 0" by simp
    show "0 \<le> ?sr / 2" using p(4) by simp
    show "freq2erb (1000 * 2 powr (1 / 5)) - freq2erb 1000 \<noteq> 0"
      using fifth_octave_spacing_pos by simp
    show "count = py_round ((freq2erb (?sr / 2) - freq2erb 0)
                            / (freq2erb (1000 * 2 powr (1 / 5)) - freq2erb 1000))" by (rule cnt(1))
    show "3 \<le> count" using cnt(2) by simp
    show "nat (count - 2) \<le> 1000 div 2 + 1" using cnt(3) by simp
  qed
  then obtain fbank centre bw where fb:
    "cos_filterbank have_scipy dsr 1000 (1 / 5) 0 None (Some ?sr) = Inr (fbank, centre, bw)"
    "length centre = ?K" "\<not> fir fbank" "samplerate fbank = ?sr" "nfilters fbank = ?K"
    "nfrequencies fbank = 501"
    using cnt(2) by auto
  from cnt(2) have K2: "2 \<le> ?K" by simp
  \<comment> \<open>the played signal through the bank\<close>
  have fan: "\<exists>out. Filter_apply have_scipy fbank s = Inr out \<and> nchannels out = ?K"
    if "nchannels s = 1" "nsamples s \<noteq> 0" "even (nsamples s)" "samplerate s = ?sr"
    for s :: "'a signal_scheme"
  proof -
    have "\<exists>out sb fbins. Filter_apply have_scipy fbank s = Inr out
           \<and> nchannels out = nfilters fbank \<and> nsamples out = nsamples s
           \<and> samplerate out = samplerate s \<and> wf_array (data out)
           \<and> rfftfreq (int (nsamples s)) (1 / samplerate s) = Inr sb
           \<and> frequencies fbank = Inr (Some fbins)
           \<and> (\<forall>i<nfilters fbank.
                 filter_spectrum sb fbins (col (data fbank) i) (rfft (col (data s) 0)) = Inr (col (data out) i))"
      using fb K2 that sr0
      by (intro fanout_frequency_even) (simp_all add: ntaps_def nfrequencies_def)
    with fb(5) show ?thesis by auto
  qed
  from fan [OF p(1,2,3) refl] obtain out_in where oi:
    "Filter_apply have_scipy fbank p = Inr out_in" "nchannels out_in = ?K" by blast
  \<comment> \<open>each recorded channel through the bank\<close>
  have "\<forall>idx. \<exists>out. idx < ?C \<longrightarrow>
          (\<exists>ch. channel r idx = Inr ch \<and> Filter_apply have_scipy fbank ch = Inr out)
          \<and> nchannels out = ?K"
  proof (intro allI)
    fix idx
    show "\<exists>out. idx < ?C \<longrightarrow>
          (\<exists>ch. channel r idx = Inr ch \<and> Filter_apply have_scipy fbank ch = Inr out)
          \<and> nchannels out = ?K"
    proof (cases "idx < ?C")
      case True
      from channel_Inr [OF True] obtain ch where ch: "channel r idx = Inr ch" "nchannels ch = 1"
          "nsamples ch = nsamples r" "samplerate ch = samplerate r" by blast
      from fan [of ch] ch r obtain out where "Filter_apply have_scipy fbank ch = Inr out"
          "nchannels out = ?K" by auto
      with ch(1) True show ?thesis by blast
    next
      case False
      then show ?thesis by simp
    qed
  qed
  then have "\<exists>outs. \<forall>idx. idx < ?C \<longrightarrow>
          (\<exists>ch. channel r idx = Inr ch \<and> Filter_apply have_scipy fbank ch = Inr (outs idx))
          \<and> nchannels (outs idx) = ?K"
    by (rule choice)
  then obtain outs where outs0: "\<forall>idx. idx < ?C \<longrightarrow>
          (\<exists>ch. channel r idx = Inr ch \<and> Filter_apply have_scipy fbank ch = Inr (outs idx))
          \<and> nchannels (outs idx) = ?K" ..
  have outs: "(\<exists>ch. channel r idx = Inr ch \<and> Filter_apply have_scipy fbank ch = Inr (outs idx))
              \<and> nchannels (outs idx) = ?K" if "idx < ?C" for idx
    using outs0 that by simp
  let ?f1 = "\<lambda>idx levels_out.
               bindE (channel r idx) (\<lambda>ch.
               bindE (Filter_apply have_scipy fbank ch) (\<lambda>out.
               set_col levels_out idx (level out)))"
  have "\<exists>out. foldE ?f1 [0..<?C] (ones (length centre) ?C) = Inr out \<and> wf_array out
              \<and> ncols out = ncols (ones (length centre) ?C)
              \<and> nrows out = nrows (ones (length centre) ?C)
              \<and> (\<forall>k. col out k = (if k \<in> set [0..<?C] then level (outs k)
                                    else col (ones (length centre) ?C) k))"
  proof (rule foldE_set_col [OF wf_ones])
    fix j out
    assume "j \<in> set [0..<?C]"
    then have "j < ?C" by simp
    from outs [OF this] show "?f1 j out = set_col out j (level (outs j))"
      by (auto simp add: bindE_Inr)
  next
    fix j
    assume "j \<in> set [0..<?C]"
    then have j: "j < ?C" by simp
    from outs [OF j] lev [of "outs j"] fb(2) j
    show "length (level (outs j)) = nrows (ones (length centre) ?C) \<and> j < ncols (ones (length centre) ?C)"
      by (simp add: ones_def nrows_def)
  qed
  then obtain levels_out where lo:
    "foldE ?f1 [0..<?C] (ones (length centre) ?C) = Inr levels_out" "wf_array levels_out"
    "ncols levels_out = ?C" "nrows levels_out = length centre"
    "\<And>idx. idx < ?C \<Longrightarrow> col levels_out idx = level (outs idx)"
    by (auto simp add: ones_def nrows_def)
  \<comment> \<open>the reference level\<close>
  define ref where "ref = (case reference of
                      RefMax \<Rightarrow> Max (set (flatten levels_out))
                    | RefMean \<Rightarrow> np_mean (flatten levels_out)
                    | RefValue v \<Rightarrow> v)"
  have "flatten levels_out \<noteq> []"
    using lo(2) lo(3,4) fb(2) K2 r(4) by (intro flatten_nonempty) simp_all
  then have rf: "(case reference of
              RefMax \<Rightarrow> np_max (flatten levels_out)
            | RefMean \<Rightarrow> Inr (np_mean (flatten levels_out))
            | RefValue v \<Rightarrow> Inr v) = Inr ref"
    by (simp add: ref_def np_max_def split: reference.splits)
  \<comment> \<open>the gains\<close>
  have li: "length (level out_in) = length centre"
    using lev [of out_in] oi(2) fb(2) by simp
  have "\<exists>d. sub_arrays (tile_T (level out_in) ?C) levels_out = Inr d
             \<and> (\<forall>idx<?C. col (sub_scalar d ref) idx
                   = map (\<lambda>k. level out_in ! k - level (outs idx) ! k - ref) [0..<length centre])"
  proof -
    have n: "nrows (tile_T (level out_in) ?C) = length (level out_in)"
        "ncols (tile_T (level out_in) ?C) = ?C"
      by (simp_all add: tile_T_def nrows_def)
    from r(4) obtain d where d: "sub_arrays (tile_T (level out_in) ?C) levels_out = Inr d"
      using amp_diffs_column [OF lo(2), of "level out_in" ?C 0 ref] lo(3,4) li K2 fb(2) by auto
    have "col (sub_scalar d ref) idx
          = map (\<lambda>k. level out_in ! k - level (outs idx) ! k - ref) [0..<length centre]"
      if "idx < ?C" for idx
      using amp_diffs_column [OF lo(2), of "level out_in" ?C idx ref] lo(3,4) li K2 fb(2) that d
        lo(5) [OF that]
      by auto
    with d show ?thesis by blast
  qed
  then obtain diffs where df: "sub_arrays (tile_T (level out_in) ?C) levels_out = Inr diffs"
    "\<And>idx. idx < ?C \<Longrightarrow> col (sub_scalar diffs ref) idx
                = map (\<lambda>k. level out_in ! k - level (outs idx) ! k - ref) [0..<length centre]"
    by blast
  \<comment> \<open>the designs\<close>
  let ?kw = "\<lambda>idx. [(''freq'', KwArray (0 # centre @ [?sr / 2])),
                    (''gain'', KwArray (0 # col (sub_scalar diffs ref) idx @ [0])),
                    (''fs'', KwReal ?sr)]"
  have "\<forall>idx. \<exists>t. design 1000 (?kw idx) = Inr t \<and> length t = 1000"
    by (intro allI des)
  then have "\<exists>taps. \<forall>idx. design 1000 (?kw idx) = Inr (taps idx) \<and> length (taps idx) = 1000"
    by (rule choice)
  then obtain taps where taps0:
    "\<forall>idx. design 1000 (?kw idx) = Inr (taps idx) \<and> length (taps idx) = 1000" ..
  have taps: "design 1000 (?kw idx) = Inr (taps idx)" "length (taps idx) = 1000" for idx
    using taps0 by simp_all
  let ?f2 = "\<lambda>idx filt. bindE (firwin2 have_scipy design 1000 (?kw idx)) (\<lambda>t. set_col filt idx t)"
  have "\<exists>out. foldE ?f2 [0..<?C] (zeros 1000 ?C) = Inr out \<and> wf_array out
              \<and> ncols out = ncols (zeros 1000 ?C) \<and> nrows out = nrows (zeros 1000 ?C)
              \<and> (\<forall>k. col out k = (if k \<in> set [0..<?C] then taps k else col (zeros 1000 ?C) k))"
  proof (rule foldE_set_col [OF wf_zeros])
    fix j out
    show "?f2 j out = set_col out j (taps j)"
      using hs taps(1) [of j] by (simp add: firwin2_def firwin2_keywords_def bindE_Inr)
  next
    fix j
    assume "j \<in> set [0..<?C]"
    then show "length (taps j) = nrows (zeros 1000 ?C) \<and> j < ncols (zeros 1000 ?C)"
      using taps(2) [of j] by (simp add: zeros_def nrows_def)
  qed
  then obtain filt where ft: "foldE ?f2 [0..<?C] (zeros 1000 ?C) = Inr filt" "wf_array filt"
    "ncols filt = ?C" "nrows filt = 1000" "\<And>idx. idx < ?C \<Longrightarrow> col filt idx = taps idx"
    by (auto simp add: zeros_def nrows_def)
  \<comment> \<open>putting the steps together\<close>
  have eq: "equalizing_filterbank have_scipy dsr resample level design played recorded reference
        = Filter_init have_scipy dsr (Array2 filt) (Some ?sr) True"
    unfolding equalizing_filterbank_def step1
    by (simp add: bindE_Inr fb(1) oi(1) lo(1) rf df(1) ft(1) Let_def)
  have gains: "\<forall>idx<?C. design 1000
                   [(''freq'', KwArray (0 # centre @ [?sr / 2])),
                    (''gain'', KwArray (0 # map (\<lambda>k. level out_in ! k - level (outs idx) ! k - ref)
                                              [0..<length centre] @ [0])),
                    (''fs'', KwReal ?sr)]
                 = Inr (col filt idx)"
  proof (intro allI impI)
    fix idx
    assume i: "idx < ?C"
    show "design 1000
           [(''freq'', KwArray (0 # centre @ [?sr / 2])),
            (''gain'', KwArray (0 # map (\<lambda>k. level out_in ! k - level (outs idx) ! k - ref)
                                      [0..<length centre] @ [0])),
            (''fs'', KwReal ?sr)]
          = Inr (col filt idx)"
      using taps(1) [of idx] df(2) [OF i] ft(5) [OF i] by simp
  qed
  have chans: "\<forall>idx<?C. \<exists>ch. channel r idx = Inr ch
                            \<and> Filter_apply have_scipy fbank ch = Inr (outs idx)"
    using outs by blast
  have cols: "\<forall>idx<?C. col levels_out idx = level (outs idx)"
    using lo(5) by blast
  show ?thesis
  proof (intro exI conjI)
    show "equalizing_filterbank have_scipy dsr resample level design played recorded reference
          = Filter_init have_scipy dsr (Array2 filt) (Some ?sr) True" by (rule eq)
    show "wf_array filt" by (rule ft(2))
    show "nrows filt = 1000" by (rule ft(4))
    show "ncols filt = ?C" by (rule ft(3))
    show "cos_filterbank have_scipy dsr 1000 (1 / 5) 0 None (Some ?sr) = Inr (fbank, centre, bw)"
      by (rule fb(1))
    show "Filter_apply have_scipy fbank p = Inr out_in" by (rule oi(1))
    show "\<forall>idx<?C. \<exists>ch. channel r idx = Inr ch
                            \<and> Filter_apply have_scipy fbank ch = Inr (outs idx)" by (rule chans)
    show "ncols levels_out = ?C" by (rule lo(3))
    show "nrows levels_out = length centre" by (rule lo(4))
    show "\<forall>idx<?C. col levels_out idx = level (outs idx)" by (rule cols)
    show "ref = (case reference of
                      RefMax \<Rightarrow> Max (set (flatten levels_out))
                    | RefMean \<Rightarrow> np_mean (flatten levels_out)
                    | RefValue v \<Rightarrow> v)" by (rule ref_def)
    show "\<forall>idx<?C. design 1000
                   [(''freq'', KwArray (0 # centre @ [?sr / 2])),
                    (''gain'', KwArray (0 # map (\<lambda>k. level out_in ! k - level (outs idx) ! k - ref)
                                              [0..<length centre] @ [0])),
                    (''fs'', KwReal ?sr)]
                 = Inr (col filt idx)" by (rule gains)
  qed
qed

text \<open>
  C9, amended. Let \<open>p\<close> and \<open>r\<close> be the played and the recorded signal after the
  resampling step. If scipy is imported, \<open>p\<close> has one channel, \<open>r\<close> has between 1 and
  1000 channels and the samplerate of \<open>p\<close>, which is positive, both have an even, nonzero
  number of samples, the count of ERB points is between 4 and 503, \<open>level\<close> gives one
  value per channel and the design routine returns 1000 taps, then
  \<open>equalizing_filterbank\<close> returns an FIR Filter with one column of 1000 taps per
  recorded channel. Column \<open>idx\<close> is the design for the frequencies 0, the center
  frequencies of the bank, and half the samplerate, with the gains 0, the levels of the
  played signal less the levels of recorded channel \<open>idx\<close> less the reference level in
  each band, and 0.
\<close>

theorem equalizing_filterbank_design:
  fixes played recorded p r :: "'a signal_scheme"
  assumes hs: "have_scipy"
    and step1: "(if samplerate played > samplerate recorded
                 then bindE (resample played (samplerate recorded)) (\<lambda>p. Inr (p, recorded))
                 else bindE (resample recorded (samplerate played)) (\<lambda>r. Inr (played, r)))
                = Inr (p, r)"
    and p: "nchannels p = 1" "nsamples p \<noteq> 0" "even (nsamples p)" "0 < samplerate p"
    and r: "samplerate r = samplerate p" "nsamples r \<noteq> 0" "even (nsamples r)"
           "1 \<le> nchannels r" "nchannels r \<le> 1000"
    and cnt: "count = py_round ((freq2erb (samplerate p / 2) - freq2erb 0)
                                / (freq2erb (1000 * 2 powr (1 / 5)) - freq2erb 1000))"
             "4 \<le> count" "count \<le> 503"
    and lev: "\<And>s. length (level s) = nchannels s"
    and des: "\<And>kw. \<exists>t. design 1000 kw = Inr t \<and> length t = 1000"
  shows "\<exists>flt fbank centre bw out_in outs levels_out ref.
           equalizing_filterbank have_scipy dsr resample level design played recorded reference = Inr flt
           \<and> fir flt \<and> samplerate flt = samplerate p
           \<and> nfilters flt = nchannels r \<and> ntaps flt = 1000
           \<and> cos_filterbank have_scipy dsr 1000 (1 / 5) 0 None (Some (samplerate p))
               = Inr (fbank, centre, bw)
           \<and> Filter_apply have_scipy fbank p = Inr out_in
           \<and> (\<forall>idx<nchannels r. \<exists>ch. channel r idx = Inr ch
                                     \<and> Filter_apply have_scipy fbank ch = Inr (outs idx))
           \<and> ncols levels_out = nchannels r \<and> nrows levels_out = length centre
           \<and> (\<forall>idx<nchannels r. col levels_out idx = level (outs idx))
           \<and> ref = (case reference of
                      RefMax \<Rightarrow> Max (set (flatten levels_out))
                    | RefMean \<Rightarrow> np_mean (flatten levels_out)
                    | RefValue v \<Rightarrow> v)
           \<and> (\<forall>idx<nchannels r.
                 design 1000
                   [(''freq'', KwArray (0 # centre @ [samplerate p / 2])),
                    (''gain'', KwArray (0 # map (\<lambda>k. level out_in ! k - level (outs idx) ! k - ref)
                                              [0..<length centre] @ [0])),
                    (''fs'', KwReal (samplerate p))]
                 = Inr (col (data flt) idx))"
proof -
  from equalizing_filterbank_lemma
    [where level = level and design = design and dsr = dsr and reference = reference,
     OF hs step1 p r(1,2,3,4) cnt lev des]
  obtain filt fbank centre bw out_in outs levels_out ref where e:
    "equalizing_filterbank have_scipy dsr resample level design played recorded reference
       = Filter_init have_scipy dsr (Array2 filt) (Some (samplerate p)) True"
    "wf_array filt" "nrows filt = 1000" "ncols filt = nchannels r"
    "cos_filterbank have_scipy dsr 1000 (1 / 5) 0 None (Some (samplerate p)) = Inr (fbank, centre, bw)"
    "Filter_apply have_scipy fbank p = Inr out_in"
    "\<forall>idx<nchannels r. \<exists>ch. channel r idx = Inr ch \<and> Filter_apply have_scipy fbank ch = Inr (outs idx)"
    "ncols levels_out = nchannels r" "nrows levels_out = length centre"
    "\<forall>idx<nchannels r. col levels_out idx = level (outs idx)"
    "ref = (case reference of
              RefMax \<Rightarrow> Max (set (flatten levels_out))
            | RefMean \<Rightarrow> np_mean (flatten levels_out)
            | RefValue v \<Rightarrow> v)"
    "\<forall>idx<nchannels r.
       design 1000
         [(''freq'', KwArray (0 # centre @ [samplerate p / 2])),
          (''gain'', KwArray (0 # map (\<lambda>k. level out_in ! k - level (outs idx) ! k - ref)
                                    [0..<length centre] @ [0])),
          (''fs'', KwReal (samplerate p))]
       = Inr (col filt idx)"
    by blast
  let ?flt = "\<lparr>data = filt, samplerate = samplerate p, fir = True\<rparr>"
  from r(5) e(3,4) have "Signal_data (Array2 filt) = filt"
    by (simp add: Signal_data_Array2_tall)
  with hs e(1) have res: "equalizing_filterbank have_scipy dsr resample level design played recorded reference
                          = Inr ?flt"
    by (simp add: Filter_init_def get_samplerate_def)
  have props: "fir ?flt" "samplerate ?flt = samplerate p" "nfilters ?flt = nchannels r"
      "ntaps ?flt = 1000" "data ?flt = filt"
    using e(3,4) by (simp_all add: nfilters_def ntaps_def nchannels_def nsamples_def)
  show ?thesis
  proof (intro exI conjI)
    show "equalizing_filterbank have_scipy dsr resample level design played recorded reference = Inr ?flt"
      by (rule res)
    show "fir ?flt" by (rule props(1))
    show "samplerate ?flt = samplerate p" by (rule props(2))
    show "nfilters ?flt = nchannels r" by (rule props(3))
    show "ntaps ?flt = 1000" by (rule props(4))
    show "cos_filterbank have_scipy dsr 1000 (1 / 5) 0 None (Some (samplerate p)) = Inr (fbank, centre, bw)"
      by (rule e(5))
    show "Filter_apply have_scipy fbank p = Inr out_in" by (rule e(6))
    show "\<forall>idx<nchannels r. \<exists>ch. channel r idx = Inr ch \<and> Filter_apply have_scipy fbank ch = Inr (outs idx)"
      by (rule e(7))
    show "ncols levels_out = nchannels r" by (rule e(8))
    show "nrows levels_out = length centre" by (rule e(9))
    show "\<forall>idx<nchannels r. col levels_out idx = level (outs idx)" by (rule e(10))
    show "ref = (case reference of
              RefMax \<Rightarrow> Max (set (flatten levels_out))
            | RefMean \<Rightarrow> np_mean (flatten levels_out)
            | RefValue v \<Rightarrow> v)" by (rule e(11))
    show "\<forall>idx<nchannels r.
       design 1000
         [(''freq'', KwArray (0 # centre @ [samplerate p / 2])),
          (''gain'', KwArray (0 # map (\<lambda>k. level out_in ! k - level (outs idx) ! k - ref)
                                    [0..<length centre] @ [0])),
          (''fs'', KwReal (samplerate p))]
       = Inr (col (data ?flt) idx)"
      unfolding props(5) by (rule e(12))
  qed
qed

theorem equalizing_filterbank_design_witness:
  "\<exists>flt. equalizing_filterbank True 8000
            (\<lambda>s rate. Inr (s\<lparr>samplerate := rate\<rparr>))
            (\<lambda>s. replicate (nchannels s) 0)
            (\<lambda>n kw. Inr (replicate n 0))
            \<lparr>data = \<lparr>ncols = 1, rows = [[1], [2]]\<rparr>, samplerate = 8000\<rparr>
            \<lparr>data = \<lparr>ncols = 2, rows = [[1, 2], [3, 4]]\<rparr>, samplerate = 8000\<rparr>
            RefMax = Inr flt
         \<and> fir flt \<and> samplerate flt = 8000 \<and> nfilters flt = 2 \<and> ntaps flt = 1000"
proof -
  define count where "count = py_round ((freq2erb (8000 / 2) - freq2erb 0)
                             / (freq2erb (1000 * 2 powr (1 / 5)) - freq2erb 1000))"
  from count_bounds_8000 [OF count_def] have c: "4 \<le> count" "count \<le> 503" by simp_all
  from equalizing_filterbank_design
    [where have_scipy = True and dsr = 8000
       and resample = "\<lambda>s rate. Inr (s\<lparr>samplerate := rate\<rparr>)"
       and level = "\<lambda>s. replicate (nchannels s) 0"
       and design = "\<lambda>n kw. Inr (replicate n 0)"
       and played = "\<lparr>data = \<lparr>ncols = 1, rows = [[1], [2]]\<rparr>, samplerate = 8000\<rparr>"
       and recorded = "\<lparr>data = \<lparr>ncols = 2, rows = [[1, 2], [3, 4]]\<rparr>, samplerate = 8000\<rparr>"
       and p = "\<lparr>data = \<lparr>ncols = 1, rows = [[1], [2]]\<rparr>, samplerate = 8000\<rparr>"
       and r = "\<lparr>data = \<lparr>ncols = 2, rows = [[1, 2], [3, 4]]\<rparr>, samplerate = 8000\<rparr>"
       and count = count and reference = RefMax]
    c count_def
  show ?thesis
    by (simp add: bindE_Inr nchannels_def nsamples_def nrows_def) blast
qed

text \<open>
  Why the played signal is taken with one channel: the bank is applied to it under the
  rules of \<open>apply\<close>, so a played signal of two channels meets a bank of more than two
  filters and the shape-mismatch error leaves \<open>equalizing_filterbank\<close>.
\<close>

lemma equalizing_filterbank_stereo_played:
  "equalizing_filterbank True 8000
     (\<lambda>s rate. Inr (s\<lparr>samplerate := rate\<rparr>))
     (\<lambda>s. replicate (nchannels s) 0)
     (\<lambda>n kw. Inr (replicate n 0))
     \<lparr>data = \<lparr>ncols = 2, rows = [[1, 2], [3, 4]]\<rparr>, samplerate = 8000\<rparr>
     \<lparr>data = \<lparr>ncols = 1, rows = [[1], [2]]\<rparr>, samplerate = 8000\<rparr>
     RefMax
   = Inl ShapeMismatchError"
proof -
  define count where "count = py_round ((freq2erb (8000 / 2) - freq2erb 0)
                             / (freq2erb (1000 * 2 powr (1 / 5)) - freq2erb 1000))"
  from count_bounds_8000 [OF count_def] have c: "5 \<le> count" "count \<le> 40" by simp_all
  let ?pl = "\<lparr>data = \<lparr>ncols = 2, rows = [[1 :: real, 2], [3, 4]]\<rparr>, samplerate = 8000 :: real\<rparr>"
  have "\<exists>fbank bw.
           cos_filterbank True 8000 1000 (1 / 5) 0 None (Some 8000)
             = Inr (fbank,
                    map erb2freq (map (\<lambda>i. freq2erb 0
                                            + real i * ((freq2erb (8000 / 2) - freq2erb 0) / real (nat count - 1)))
                                   [1..<nat count - 1]),
                    bw)
           \<and> \<not> fir fbank \<and> samplerate fbank = 8000
           \<and> nfilters fbank = nat (count - 2) \<and> nfrequencies fbank = 1000 div 2 + 1"
  proof (rule cos_filterbank_tall [where hi = "8000 / 2"])
    show "(8000 :: real) \<noteq> 0" by simp
    show "8000 = get_samplerate 8000 (Some 8000)" by (simp add: get_samplerate_def)
    show "(1000 :: nat) \<noteq> 0" by simp
    show "8000 / 2 = (case None of None \<Rightarrow> 8000 / 2 | Some h \<Rightarrow> if h = 0 then 8000 / 2 else (h :: real))"
      by simp
    show "(0 :: real) \<le> 0" by simp
    show "(0 :: real) \<le> 8000 / 2" by simp
    show "freq2erb (1000 * 2 powr (1 / 5)) - freq2erb 1000 \<noteq> 0"
      using fifth_octave_spacing_pos by simp
    show "count = py_round ((freq2erb (8000 / 2) - freq2erb 0)
                            / (freq2erb (1000 * 2 powr (1 / 5)) - freq2erb 1000))" by (rule count_def)
    show "3 \<le> count" using c(1) by simp
    show "nat (count - 2) \<le> 1000 div 2 + 1" using c(2) by simp
  qed
  then obtain fbank centre bw where fb:
    "cos_filterbank True 8000 1000 (1 / 5) 0 None (Some 8000) = Inr (fbank, centre, bw)"
    "\<not> fir fbank" "samplerate fbank = 8000" "nfilters fbank = nat (count - 2)"
    by blast
  from c fb have "Filter_apply True fbank ?pl = Inl ShapeMismatchError"
    using apply_count_mismatch [of fbank ?pl True]
    by (simp add: nchannels_def nsamples_def nrows_def)
  then show ?thesis
    unfolding equalizing_filterbank_def
    by (simp add: bindE_Inr bindE_Inl fb(1))
qed

text \<open>
  C9, as the code has it. The designs are collected in an array of 1000 rows and one column
  per recorded channel, and the constructor transposes an array with more columns than
  rows: for a recording of 1001 channels the Filter returned has 1000 filters of 1001 taps,
  not one filter of 1000 taps per channel.
\<close>

theorem equalizing_filterbank_many_channels:
  "map_sum id (\<lambda>flt. (nfilters flt, ntaps flt))
     (equalizing_filterbank True 8000
        (\<lambda>s rate. Inr (s\<lparr>samplerate := rate\<rparr>))
        (\<lambda>s. replicate (nchannels s) 0)
        (\<lambda>n kw. Inr (replicate n 0))
        \<lparr>data = \<lparr>ncols = 1, rows = [[1], [2]]\<rparr>, samplerate = 8000\<rparr>
        \<lparr>data = \<lparr>ncols = 1001, rows = replicate 1002 (replicate 1001 0)\<rparr>, samplerate = 8000\<rparr>
        RefMax)
   = Inr (1000, 1001)
   \<and> nchannels \<lparr>data = \<lparr>ncols = 1001, rows = replicate 1002 (replicate 1001 0)\<rparr>, samplerate = 8000\<rparr>
     = 1001"
proof -
  define count where "count = py_round ((freq2erb (8000 / 2) - freq2erb 0)
                             / (freq2erb (1000 * 2 powr (1 / 5)) - freq2erb 1000))"
  from count_bounds_8000 [OF count_def] have c: "4 \<le> count" "count \<le> 503" by simp_all
  let ?rec = "\<lparr>data = \<lparr>ncols = 1001, rows = replicate 1002 (replicate 1001 (0 :: real))\<rparr>, samplerate = 8000 :: real\<rparr>"
  let ?pl = "\<lparr>data = \<lparr>ncols = 1, rows = [[1 :: real], [2]]\<rparr>, samplerate = 8000 :: real\<rparr>"
  from equalizing_filterbank_lemma
    [where have_scipy = True and dsr = 8000
       and resample = "\<lambda>s rate. Inr (s\<lparr>samplerate := rate\<rparr>)"
       and level = "\<lambda>s. replicate (nchannels s) 0"
       and design = "\<lambda>n kw. Inr (replicate n 0)"
       and played = ?pl and recorded = ?rec and p = ?pl and r = ?rec
       and count = count and reference = RefMax]
    c count_def
  have "\<exists>filt. equalizing_filterbank True 8000 (\<lambda>s rate. Inr (s\<lparr>samplerate := rate\<rparr>))
             (\<lambda>s. replicate (nchannels s) 0) (\<lambda>n kw. Inr (replicate n 0)) ?pl ?rec RefMax
             = Filter_init True 8000 (Array2 filt) (Some 8000) True
           \<and> nrows filt = 1000 \<and> ncols filt = 1001"
    by (simp add: bindE_Inr nchannels_def nsamples_def nrows_def) blast
  then obtain filt where f:
    "equalizing_filterbank True 8000 (\<lambda>s rate. Inr (s\<lparr>samplerate := rate\<rparr>))
             (\<lambda>s. replicate (nchannels s) 0) (\<lambda>n kw. Inr (replicate n 0)) ?pl ?rec RefMax
             = Filter_init True 8000 (Array2 filt) (Some 8000) True"
    "nrows filt = 1000" "ncols filt = 1001"
    by blast
  have n: "nchannels ?rec = 1001" by (simp add: nchannels_def)
  from f(2,3) have "Signal_data (Array2 filt) = array_T filt"
    by (simp add: Signal_data_Array2_wide)
  with f n show ?thesis
    by (simp add: Filter_init_def nfilters_def ntaps_def nchannels_def nsamples_def
        nrows_array_T ncols_array_T)
qed

section \<open>Saving and loading\<close>

text \<open>
  C6, as the code has it. \<open>apply\<close> returns a copy of its argument with the data replaced,
  and in the fan-out case the new data has one column per filter: applied to a Filter of
  two taps, a bank of three filters returns a Filter with two rows and three columns.
  \<open>load\<close> passes the saved rows to the constructor, which transposes them, so loading
  what \<open>save\<close> wrote does not give this Filter back.
\<close>

theorem roundtrip_transposes_wide_filter:
  "Filter_apply True
     \<lparr>data = \<lparr>ncols = 3, rows = [[1, 0, 0], [0, 1, 0], [0, 0, 1]]\<rparr>, samplerate = 8000, fir = True\<rparr>
     \<lparr>data = \<lparr>ncols = 1, rows = [[1], [2]]\<rparr>, samplerate = 8000, fir = True\<rparr>
   = Inr \<lparr>data = \<lparr>ncols = 3, rows = [[1, 0, 0], [2, 1, 0]]\<rparr>, samplerate = 8000, fir = True\<rparr>
   \<and> load True 8000
        (save \<lparr>data = \<lparr>ncols = 3, rows = [[1, 0, 0], [2, 1, 0]]\<rparr>, samplerate = 8000, fir = True\<rparr>)
     = Inr \<lparr>data = \<lparr>ncols = 2, rows = [[1, 2], [0, 1], [0, 0]]\<rparr>, samplerate = 8000, fir = True\<rparr>
   \<and> load True 8000
        (save \<lparr>data = \<lparr>ncols = 3, rows = [[1, 0, 0], [2, 1, 0]]\<rparr>, samplerate = 8000, fir = True\<rparr>)
     \<noteq> Inr \<lparr>data = \<lparr>ncols = 3, rows = [[1, 0, 0], [2, 1, 0]]\<rparr>, samplerate = 8000, fir = True\<rparr>"
proof -
  have "Filter_apply True
     \<lparr>data = \<lparr>ncols = 3, rows = [[1, 0, 0], [0, 1, 0], [0, 0, 1]]\<rparr>, samplerate = 8000, fir = True\<rparr>
     \<lparr>data = \<lparr>ncols = 1, rows = [[1], [2]]\<rparr>, samplerate = 8000, fir = True\<rparr>
   = Inr \<lparr>data = \<lparr>ncols = 3, rows = [[1, 0, 0], [2, 1, 0]]\<rparr>, samplerate = 8000, fir = True\<rparr>"
    by (simp add: Filter_apply_def nfilters_def nchannels_def nsamples_def nrows_def
        upt_3 upt_2 upt_1 bindE_def lfilter_def set_col_def empty_array_def flatten_def
        of_cols_def col_def fir_filter_def eval_nat_numeral)
  moreover have "load True 8000
        (save \<lparr>data = \<lparr>ncols = 3, rows = [[1, 0, 0], [2, 1, 0]]\<rparr>, samplerate = 8000, fir = True\<rparr>)
     = Inr \<lparr>data = \<lparr>ncols = 2, rows = [[1, 2], [0, 1], [0, 0]]\<rparr>, samplerate = 8000, fir = True\<rparr>"
    by (simp add: load_def save_def Let_def nrows_def Filter_init_def Signal_data_def
        array_T_def col_def upt_3 nfilters_def nchannels_def get_samplerate_def)
  ultimately show ?thesis by simp
qed

text \<open>
  C6, amended: for every Filter with at least one filter and at least as many rows as
  filters (the shape every construction leaves), and with scipy imported when the filter
  is FIR, \<open>load\<close> of what \<open>save\<close> wrote gives back the same data, samplerate and flag;
  the saved array has one column per filter, row 0 the samplerate and row 1 the flag as 1
  or 0, each repeated over the columns, and the data from row 2 on.
\<close>

theorem save_load_roundtrip:
  assumes "1 \<le> nfilters f" and "nfilters f \<le> ntaps f" and "fir f \<longrightarrow> have_scipy"
  shows "load have_scipy dsr (save f) = Inr f
         \<and> ncols (save f) = nfilters f
         \<and> rows (save f) ! 0 = replicate (nfilters f) (samplerate f)
         \<and> rows (save f) ! 1 = replicate (nfilters f) (if fir f then 1 else 0)
         \<and> drop 2 (rows (save f)) = rows (data f)"
  using assms
  by (auto simp add: load_def save_def Let_def nrows_def Filter_init_def Signal_data_def
      nfilters_def ntaps_def nchannels_def nsamples_def get_samplerate_def)

theorem save_load_roundtrip_witness:
  "load True 8000
     (save \<lparr>data = \<lparr>ncols = 2, rows = [[1, 2], [0, 1], [0, 0]]\<rparr>, samplerate = 44100, fir = True\<rparr>)
   = Inr \<lparr>data = \<lparr>ncols = 2, rows = [[1, 2], [0, 1], [0, 0]]\<rparr>, samplerate = 44100, fir = True\<rparr>
   \<and> rows (save \<lparr>data = \<lparr>ncols = 2, rows = [[1, 2], [0, 1], [0, 0]]\<rparr>, samplerate = 44100, fir = True\<rparr>) ! 0
     = [44100, 44100]
   \<and> rows (save \<lparr>data = \<lparr>ncols = 2, rows = [[1, 2], [0, 1], [0, 0]]\<rparr>, samplerate = 44100, fir = True\<rparr>) ! 1
     = [1, 1]"
  using save_load_roundtrip
    [of "\<lparr>data = \<lparr>ncols = 2, rows = [[1, 2], [0, 1], [0, 0]]\<rparr>, samplerate = 44100, fir = True\<rparr>"
        True 8000]
  by (simp add: nfilters_def ntaps_def nchannels_def nsamples_def nrows_def eval_nat_numeral)

end
